theory Spec2Isabelle
  imports Main "HOL-Library.Word"
begin

unbundle bit_operations_syntax

section \<open>The HD44780 driver: data model\<close>

text \<open>
  The driver (the 2023 source, over the context type \<^verbatim>\<open>hd44780_ctx\<close> of
  \<^verbatim>\<open>hd44780.h\<close>) talks to the display only through the callbacks of its context.
  The embedding keeps that shape: a context is a record holding the callbacks and the
  configuration, a callback is a function on the state \<open>'h\<close> of the hardware behind
  it, and every call the driver makes through the context is appended to a trace. The
  trace is what a recording mock of the bus would show.

  \<^verbatim>\<open>uint8_t\<close> is \<open>8 word\<close>, \<^verbatim>\<open>uint32_t\<close> and \<^verbatim>\<open>int\<close> are \<open>32 word\<close>; arithmetic wraps
  as in C.
\<close>

type_synonym u8 = "8 word"
type_synonym u32 = "32 word"

datatype hd44780_ret_e =
    HD44780_OK
  | HD44780_INV_ARG
  | HD44780_TIMEOUT
  | HD44780_CUSTOM_CHARS_INV
  | HD44780_CHAR_NOT_FOUND

datatype hd44780_interface = INTERFACE_4BIT | INTERFACE_8BIT

text \<open>A C enum can hold values outside its enumerators; \<open>CURSOR_OTHER\<close> stands for them.\<close>

datatype hd44780_cursor = CURSOR_OFF | CURSOR_ON | CURSOR_BLINK | CURSOR_OTHER

datatype hd44780_ctrl_pin = HD44780_PIN_RS | HD44780_PIN_RW | HD44780_PIN_E

datatype hd44780_pin_state = PIN_RESET | PIN_SET

datatype hd44780_gpio_dir = GPIO_DIR_IN | GPIO_DIR_OUT

text \<open>
  \<^verbatim>\<open>character_bitmap\<close> is an array of 8 bytes read as \<^verbatim>\<open>pattern[i]\<close> with a
  \<^verbatim>\<open>uint8_t\<close> index; it is modelled by the function from the index to the byte.
\<close>

record character_mapping =
  utf_8_code :: u32
  character_bitmap :: "u8 \<Rightarrow> u8"

text \<open>
  The context. \<^verbatim>\<open>custom_chars_map\<close> is a pointer in C; the model is the memory it
  points to, indexed by the \<^verbatim>\<open>uint8_t\<close> loop counter of the driver. The busy-wait
  callback is a transformer of the hardware state that returns a status: whatever it
  does to the pins (the callback of the example polls the busy flag) happens inside it
  and shows in the trace as the one call.
\<close>

record 'h hd44780_ctx =
  cb_init_common :: "'h \<Rightarrow> 'h"
  cb_set_bus_direction :: "hd44780_gpio_dir \<Rightarrow> 'h \<Rightarrow> 'h"
  cb_set_ctrl_pin_state :: "hd44780_ctrl_pin \<Rightarrow> hd44780_pin_state \<Rightarrow> 'h \<Rightarrow> 'h"
  cb_read_bus :: "'h \<Rightarrow> u8 \<times> 'h"
  cb_write_bus :: "u8 \<Rightarrow> 'h \<Rightarrow> 'h"
  cb_delay_ms :: "u8 \<Rightarrow> 'h \<Rightarrow> 'h"
  cb_wait_for_busy_flag_clear :: "'h \<Rightarrow> hd44780_ret_e \<times> 'h"
  custom_chars_map :: "u8 \<Rightarrow> character_mapping"
  custom_chars_map_len :: u8
  number_of_lines :: u8
  column_width :: u8
  interface :: hd44780_interface

text \<open>One entry of the trace per callback invocation, with its arguments or its result.\<close>

datatype event =
    Init_Common
  | Set_Bus_Direction hd44780_gpio_dir
  | Set_Ctrl_Pin_State hd44780_ctrl_pin hd44780_pin_state
  | Read_Bus u8
  | Write_Bus u8
  | Delay_Ms u8
  | Wait_For_Busy_Flag_Clear hd44780_ret_e

record 'h world =
  trace :: "event list"
  hw :: 'h

subsection \<open>Calling a callback\<close>

definition call_init_common :: "'h hd44780_ctx \<Rightarrow> 'h world \<Rightarrow> 'h world" where
  "call_init_common ctx w =
     \<lparr>trace = trace w @ [Init_Common], hw = cb_init_common ctx (hw w)\<rparr>"

definition call_set_bus_direction ::
  "'h hd44780_ctx \<Rightarrow> hd44780_gpio_dir \<Rightarrow> 'h world \<Rightarrow> 'h world" where
  "call_set_bus_direction ctx d w =
     \<lparr>trace = trace w @ [Set_Bus_Direction d], hw = cb_set_bus_direction ctx d (hw w)\<rparr>"

definition call_set_ctrl_pin_state ::
  "'h hd44780_ctx \<Rightarrow> hd44780_ctrl_pin \<Rightarrow> hd44780_pin_state \<Rightarrow> 'h world \<Rightarrow> 'h world" where
  "call_set_ctrl_pin_state ctx p s w =
     \<lparr>trace = trace w @ [Set_Ctrl_Pin_State p s], hw = cb_set_ctrl_pin_state ctx p s (hw w)\<rparr>"

definition call_read_bus :: "'h hd44780_ctx \<Rightarrow> 'h world \<Rightarrow> u8 \<times> 'h world" where
  "call_read_bus ctx w =
     (case cb_read_bus ctx (hw w) of
        (v, h) \<Rightarrow> (v, \<lparr>trace = trace w @ [Read_Bus v], hw = h\<rparr>))"

definition call_write_bus :: "'h hd44780_ctx \<Rightarrow> u8 \<Rightarrow> 'h world \<Rightarrow> 'h world" where
  "call_write_bus ctx b w =
     \<lparr>trace = trace w @ [Write_Bus b], hw = cb_write_bus ctx b (hw w)\<rparr>"

definition call_delay_ms :: "'h hd44780_ctx \<Rightarrow> u8 \<Rightarrow> 'h world \<Rightarrow> 'h world" where
  "call_delay_ms ctx t w =
     \<lparr>trace = trace w @ [Delay_Ms t], hw = cb_delay_ms ctx t (hw w)\<rparr>"

definition call_wait_for_busy_flag_clear ::
  "'h hd44780_ctx \<Rightarrow> 'h world \<Rightarrow> hd44780_ret_e \<times> 'h world" where
  "call_wait_for_busy_flag_clear ctx w =
     (case cb_wait_for_busy_flag_clear ctx (hw w) of
        (r, h) \<Rightarrow> (r, \<lparr>trace = trace w @ [Wait_For_Busy_Flag_Clear r], hw = h\<rparr>))"

subsection \<open>Register addresses, bit fields and delays\<close>

definition REG_CLEAR :: u8 where "REG_CLEAR = 0x01"
definition REG_EM :: u8 where "REG_EM = 0x04"
definition REG_EM_SHIFT_CURSOR :: u8 where "REG_EM_SHIFT_CURSOR = 0x00"
definition REG_EM_INCREMENT :: u8 where "REG_EM_INCREMENT = 0x02"
definition REG_PWR_AND_CURSOR :: u8 where "REG_PWR_AND_CURSOR = 0x08"
definition REG_CURSOR_BLINK :: u8 where "REG_CURSOR_BLINK = 0x01"
definition REG_CURSOR_OFF :: u8 where "REG_CURSOR_OFF = 0x00"
definition REG_CURSOR_ON :: u8 where "REG_CURSOR_ON = 0x02"
definition REG_DISPLAY_OFF :: u8 where "REG_DISPLAY_OFF = 0x00"
definition REG_DISPLAY_ON :: u8 where "REG_DISPLAY_ON = 0x04"
definition REG_INTERFACE :: u8 where "REG_INTERFACE = 0x20"
definition REG_FONT_SIZE_5X8 :: u8 where "REG_FONT_SIZE_5X8 = 0x00"
definition REG_TWO_LINES :: u8 where "REG_TWO_LINES = 0x08"
definition REG_4_BIT_BUS :: u8 where "REG_4_BIT_BUS = 0x00"
definition REG_8_BIT_BUS :: u8 where "REG_8_BIT_BUS = 0x10"
definition REG_CGRAM_ADDR_SET :: u8 where "REG_CGRAM_ADDR_SET = 0x40"
definition REG_DDRAM_ADDR_SET :: u8 where "REG_DDRAM_ADDR_SET = 0x80"

text \<open>The defaults of \<^verbatim>\<open>hd44780.h\<close>.\<close>

definition HD44780_TIMEOUT_MS :: u32 where "HD44780_TIMEOUT_MS = 100"
definition HD44780_TIMEOUT_TICK_MS :: u32 where "HD44780_TIMEOUT_TICK_MS = 1"
definition DELAY_INIT_SEQ_LONG_MS :: u8 where "DELAY_INIT_SEQ_LONG_MS = 50"
definition DELAY_INIT_SEQ_SHORT_MS :: u8 where "DELAY_INIT_SEQ_SHORT_MS = 10"

section \<open>Bus transport\<close>

definition s_config_bus_as_input :: "'h hd44780_ctx \<Rightarrow> 'h world \<Rightarrow> 'h world" where
  "s_config_bus_as_input ctx w =
     (let w1 = call_set_bus_direction ctx GPIO_DIR_IN w;
          w2 = call_set_ctrl_pin_state ctx HD44780_PIN_RW PIN_SET w1
      in w2)"

definition s_config_bus_as_output :: "'h hd44780_ctx \<Rightarrow> 'h world \<Rightarrow> 'h world" where
  "s_config_bus_as_output ctx w =
     (let w1 = call_set_ctrl_pin_state ctx HD44780_PIN_RW PIN_RESET w;
          w2 = call_set_bus_direction ctx GPIO_DIR_OUT w1
      in w2)"

definition s_read_operation :: "'h hd44780_ctx \<Rightarrow> 'h world \<Rightarrow> u8 \<times> 'h world" where
  "s_read_operation ctx w =
     (let w1 = call_set_ctrl_pin_state ctx HD44780_PIN_E PIN_SET w;
          (data, w2) = call_read_bus ctx w1;
          w3 = call_set_ctrl_pin_state ctx HD44780_PIN_E PIN_RESET w2
      in (data, w3))"

definition s_read_byte :: "'h hd44780_ctx \<Rightarrow> 'h world \<Rightarrow> u8 \<times> 'h world" where
  "s_read_byte ctx w =
     (let w1 = s_config_bus_as_input ctx w;
          (data, w2) = s_read_operation ctx w1
      in if interface ctx = INTERFACE_4BIT
         then (let (lower_nibble, w3) = s_read_operation ctx w2
               in (data OR drop_bit 4 lower_nibble, w3))
         else (data, w2))"

definition s_read_address :: "'h hd44780_ctx \<Rightarrow> 'h world \<Rightarrow> u8 \<times> 'h world" where
  "s_read_address ctx w =
     (let w1 = call_set_ctrl_pin_state ctx HD44780_PIN_RS PIN_RESET w
      in s_read_byte ctx w1)"

definition s_read_data :: "'h hd44780_ctx \<Rightarrow> 'h world \<Rightarrow> u8 \<times> 'h world" where
  "s_read_data ctx w =
     (let w1 = call_set_ctrl_pin_state ctx HD44780_PIN_RS PIN_SET w
      in s_read_byte ctx w1)"

definition s_write_operation :: "'h hd44780_ctx \<Rightarrow> u8 \<Rightarrow> 'h world \<Rightarrow> 'h world" where
  "s_write_operation ctx data w =
     (let w1 = s_config_bus_as_output ctx w;
          w2 = call_set_ctrl_pin_state ctx HD44780_PIN_E PIN_SET w1;
          w3 = call_write_bus ctx data w2;
          w4 = call_set_ctrl_pin_state ctx HD44780_PIN_E PIN_RESET w3
      in w4)"

definition s_write_byte :: "'h hd44780_ctx \<Rightarrow> u8 \<Rightarrow> 'h world \<Rightarrow> 'h world" where
  "s_write_byte ctx data w =
     (if interface ctx = INTERFACE_8BIT
      then s_write_operation ctx data w
      else (let w1 = s_write_operation ctx data w
            in s_write_operation ctx (push_bit 4 data) w1))"

section \<open>Command and data framing\<close>

definition s_write_instruction ::
  "'h hd44780_ctx \<Rightarrow> u8 \<Rightarrow> 'h world \<Rightarrow> hd44780_ret_e \<times> 'h world" where
  "s_write_instruction ctx instruction w =
     (let (ret, w1) = call_wait_for_busy_flag_clear ctx w
      in if HD44780_OK = ret
         then (let w2 = call_set_ctrl_pin_state ctx HD44780_PIN_RS PIN_RESET w1;
                   w3 = s_write_byte ctx instruction w2
               in (ret, w3))
         else (ret, w1))"

definition s_write_data ::
  "'h hd44780_ctx \<Rightarrow> u8 \<Rightarrow> 'h world \<Rightarrow> hd44780_ret_e \<times> 'h world" where
  "s_write_data ctx data w =
     (let (ret, w1) = call_wait_for_busy_flag_clear ctx w
      in if HD44780_OK = ret
         then (let w2 = call_set_ctrl_pin_state ctx HD44780_PIN_RS PIN_SET w1;
                   w3 = s_write_byte ctx data w2
               in (ret, w3))
         else (ret, w1))"

definition s_set_ddram_addr ::
  "'h hd44780_ctx \<Rightarrow> u8 \<Rightarrow> 'h world \<Rightarrow> hd44780_ret_e \<times> 'h world" where
  "s_set_ddram_addr ctx address w = s_write_instruction ctx (REG_DDRAM_ADDR_SET OR address) w"

definition s_set_cgram_addr ::
  "'h hd44780_ctx \<Rightarrow> u8 \<Rightarrow> 'h world \<Rightarrow> hd44780_ret_e \<times> 'h world" where
  "s_set_cgram_addr ctx address w = s_write_instruction ctx (REG_CGRAM_ADDR_SET OR address) w"

definition s_set_char_addr ::
  "'h hd44780_ctx \<Rightarrow> u8 \<Rightarrow> 'h world \<Rightarrow> hd44780_ret_e \<times> 'h world" where
  "s_set_char_addr ctx index w = s_set_cgram_addr ctx (index * 8) w"

definition hd44780_is_busy :: "'h hd44780_ctx \<Rightarrow> 'h world \<Rightarrow> bool \<times> 'h world" where
  "hd44780_is_busy ctx w =
     (let (v, w1) = s_read_address ctx w
      in (if v AND 0x80 \<noteq> 0 then True else False, w1))"

section \<open>The default busy-wait\<close>

text \<open>
  \<^verbatim>\<open>timeout_ms\<close> is an \<^verbatim>\<open>int\<close>: the loop test \<^verbatim>\<open>0 <= timeout_ms\<close> is the signed
  comparison, and \<^verbatim>\<open>timeout_ms -= HD44780_TIMEOUT_TICK_MS\<close> subtracts in 32 bits.
\<close>

function s_wait_till_busy_loop ::
  "'h hd44780_ctx \<Rightarrow> hd44780_ret_e \<Rightarrow> u32 \<Rightarrow> 'h world \<Rightarrow> hd44780_ret_e \<times> 'h world" where
  "s_wait_till_busy_loop ctx ret timeout_ms w =
     (if word_sle 0 timeout_ms
      then (let (busy, w1) = hd44780_is_busy ctx w
            in if \<not> busy
               then (HD44780_OK, w1)
               else (let w2 = call_delay_ms ctx (ucast HD44780_TIMEOUT_TICK_MS) w1
                     in s_wait_till_busy_loop ctx ret (timeout_ms - HD44780_TIMEOUT_TICK_MS) w2))
      else (ret, w))"
  by pat_completeness auto
termination
proof (relation "measure (\<lambda>(ctx, ret, timeout_ms, w). nat (sint timeout_ms + 1))")
  fix ctx :: "'h hd44780_ctx" and ret :: hd44780_ret_e and timeout_ms :: u32
    and w w1 w2 :: "'h world"
  assume nonneg: "word_sle 0 timeout_ms"
  have "sint (timeout_ms - 1) = signed_take_bit 31 (sint timeout_ms - 1)"
    by (simp add: sint_word_ariths)
  also have "\<dots> = sint timeout_ms - 1"
    using nonneg sint_lt [of timeout_ms]
    by (intro signed_take_bit_int_eq_self) (simp_all add: word_sle_eq)
  finally show "((ctx, ret, timeout_ms - HD44780_TIMEOUT_TICK_MS, w2), ctx, ret, timeout_ms, w)
      \<in> measure (\<lambda>(ctx, ret, timeout_ms, w). nat (sint timeout_ms + 1))"
    using nonneg by (simp add: HD44780_TIMEOUT_TICK_MS_def word_sle_eq)
qed simp

definition s_wait_till_busy :: "'h hd44780_ctx \<Rightarrow> 'h world \<Rightarrow> hd44780_ret_e \<times> 'h world" where
  "s_wait_till_busy ctx w = s_wait_till_busy_loop ctx HD44780_TIMEOUT HD44780_TIMEOUT_MS w"

section \<open>Custom glyphs\<close>

definition hd44780_disp_char ::
  "'h hd44780_ctx \<Rightarrow> u8 \<Rightarrow> 'h world \<Rightarrow> hd44780_ret_e \<times> 'h world" where
  "hd44780_disp_char ctx index w = s_write_data ctx index w"

function hd44780_def_char_loop ::
  "'h hd44780_ctx \<Rightarrow> (u8 \<Rightarrow> u8) \<Rightarrow> hd44780_ret_e \<Rightarrow> u8 \<Rightarrow> 'h world
     \<Rightarrow> hd44780_ret_e \<times> 'h world" where
  "hd44780_def_char_loop ctx pattern ret i w =
     (if HD44780_OK = ret \<and> i < 8
      then (let (ret', w1) = s_write_data ctx (pattern i) w
            in hd44780_def_char_loop ctx pattern ret' (i + 1) w1)
      else (ret, w))"
  by pat_completeness auto
termination
proof (relation "measure (\<lambda>(ctx, pattern, ret, i, w). 8 - unat i)")
  fix ctx :: "'h hd44780_ctx" and pattern :: "u8 \<Rightarrow> u8" and ret ret' :: hd44780_ret_e
    and i :: u8 and w w1 :: "'h world"
  assume "HD44780_OK = ret \<and> i < 8"
  then have "i < 8" by simp
  then have "unat i < 8" by (simp add: word_less_nat_alt)
  moreover from \<open>i < 8\<close> have "unat (i + 1) = Suc (unat i)"
    by (metis add.commute unatSuc add_eq_0_iff word_order.extremum_strict)
  ultimately show "((ctx, pattern, ret', i + 1, w1), ctx, pattern, ret, i, w)
       \<in> measure (\<lambda>(ctx, pattern, ret, i, w). 8 - unat i)"
    by simp
qed simp

definition hd44780_def_char ::
  "'h hd44780_ctx \<Rightarrow> u8 \<Rightarrow> (u8 \<Rightarrow> u8) \<Rightarrow> 'h world \<Rightarrow> hd44780_ret_e \<times> 'h world" where
  "hd44780_def_char ctx index pattern w =
     (let (ret, w1) = s_set_char_addr ctx index w
      in hd44780_def_char_loop ctx pattern ret 0 w1)"

function s_upload_custom_chars_loop ::
  "'h hd44780_ctx \<Rightarrow> hd44780_ret_e \<Rightarrow> u8 \<Rightarrow> 'h world \<Rightarrow> hd44780_ret_e \<times> 'h world" where
  "s_upload_custom_chars_loop ctx ret i w =
     (if i < custom_chars_map_len ctx \<and> ret = HD44780_OK
      then (let (ret', w1) =
                  hd44780_def_char ctx i (character_bitmap (custom_chars_map ctx i)) w
            in s_upload_custom_chars_loop ctx ret' (i + 1) w1)
      else (ret, w))"
  by pat_completeness auto
termination
proof (relation "measure (\<lambda>(ctx, ret, i, w). unat (custom_chars_map_len ctx) - unat i)")
  fix ctx :: "'h hd44780_ctx" and ret ret' :: hd44780_ret_e and i :: u8
    and w w1 :: "'h world"
  assume "i < custom_chars_map_len ctx \<and> ret = HD44780_OK"
  then have "i < custom_chars_map_len ctx" by simp
  then have "unat (i + 1) = Suc (unat i)" and "unat i < unat (custom_chars_map_len ctx)"
    by unat_arith+
  then show "((ctx, ret', i + 1, w1), ctx, ret, i, w)
       \<in> measure (\<lambda>(ctx, ret, i, w). unat (custom_chars_map_len ctx) - unat i)"
    by simp
qed simp

definition s_upload_custom_chars ::
  "'h hd44780_ctx \<Rightarrow> 'h world \<Rightarrow> hd44780_ret_e \<times> 'h world" where
  "s_upload_custom_chars ctx w =
     (if custom_chars_map_len ctx > 8
      then (HD44780_CUSTOM_CHARS_INV, w)
      else s_upload_custom_chars_loop ctx HD44780_OK 0 w)"

text \<open>
  \<^verbatim>\<open>*index\<close> is written only when the code is found; the model takes the value the
  caller stored there and returns it with the status.
\<close>

function s_find_character_by_code_loop ::
  "'h hd44780_ctx \<Rightarrow> u32 \<Rightarrow> u8 \<Rightarrow> u8 \<Rightarrow> hd44780_ret_e \<times> u8" where
  "s_find_character_by_code_loop ctx code index i =
     (if i < custom_chars_map_len ctx
      then (if code = utf_8_code (custom_chars_map ctx i)
            then (HD44780_OK, i)
            else s_find_character_by_code_loop ctx code index (i + 1))
      else (HD44780_CHAR_NOT_FOUND, index))"
  by pat_completeness auto
termination
proof (relation "measure (\<lambda>(ctx, code, index, i). unat (custom_chars_map_len ctx) - unat i)")
  fix ctx :: "'h hd44780_ctx" and code :: u32 and index i :: u8
  assume "i < custom_chars_map_len ctx"
  then have "unat (i + 1) = Suc (unat i)" and "unat i < unat (custom_chars_map_len ctx)"
    by unat_arith+
  then show "((ctx, code, index, i + 1), ctx, code, index, i)
       \<in> measure (\<lambda>(ctx, code, index, i). unat (custom_chars_map_len ctx) - unat i)"
    by simp
qed simp

definition s_find_character_by_code ::
  "'h hd44780_ctx \<Rightarrow> u32 \<Rightarrow> u8 \<Rightarrow> hd44780_ret_e \<times> u8" where
  "s_find_character_by_code ctx code index = s_find_character_by_code_loop ctx code index 0"

section \<open>Public operations\<close>

definition hd44780_clear :: "'h hd44780_ctx \<Rightarrow> 'h world \<Rightarrow> hd44780_ret_e \<times> 'h world" where
  "hd44780_clear ctx w = s_write_instruction ctx REG_CLEAR w"

definition hd44780_display_off ::
  "'h hd44780_ctx \<Rightarrow> 'h world \<Rightarrow> hd44780_ret_e \<times> 'h world" where
  "hd44780_display_off ctx w = s_write_instruction ctx (REG_PWR_AND_CURSOR OR REG_DISPLAY_OFF) w"

definition hd44780_cursor_cfg ::
  "'h hd44780_ctx \<Rightarrow> hd44780_cursor \<Rightarrow> 'h world \<Rightarrow> hd44780_ret_e \<times> 'h world" where
  "hd44780_cursor_cfg ctx cursor_cfg w =
     (let instruction = REG_PWR_AND_CURSOR OR REG_DISPLAY_ON
      in if cursor_cfg = CURSOR_OFF
         then s_write_instruction ctx (instruction OR REG_CURSOR_OFF) w
         else if cursor_cfg = CURSOR_ON
         then s_write_instruction ctx (instruction OR REG_CURSOR_ON) w
         else if cursor_cfg = CURSOR_BLINK
         then s_write_instruction ctx (instruction OR (REG_CURSOR_ON OR REG_CURSOR_BLINK)) w
         else (HD44780_INV_ARG, w))"

subsection \<open>Addressing\<close>

definition hd44780_set_pos ::
  "'h hd44780_ctx \<Rightarrow> u8 \<Rightarrow> u8 \<Rightarrow> 'h world \<Rightarrow> hd44780_ret_e \<times> 'h world" where
  "hd44780_set_pos ctx row column w =
     (if column_width ctx \<le> column \<or> number_of_lines ctx \<le> row
      then (HD44780_INV_ARG, w)
      else (let address = column;
                address = (if row = 1 then address + 0x40
                           else if row = 2 then address + column_width ctx
                           else if row = 3 then (address + 0x40) + column_width ctx
                           else address)
            in s_set_ddram_addr ctx address w))"

subsection \<open>Text rendering\<close>

text \<open>
  The glyph branch of the loop body (the lookup and what follows it). The address read
  is widened to \<^verbatim>\<open>uint32_t\<close>, incremented, and narrowed again by the \<^verbatim>\<open>uint8_t\<close>
  parameter of \<^verbatim>\<open>s_set_ddram_addr\<close>. The statuses of \<^verbatim>\<open>hd44780_disp_char\<close> and
  \<^verbatim>\<open>s_set_ddram_addr\<close> are dropped, as in the source.
\<close>

definition hd44780_write_text_glyph ::
  "'h hd44780_ctx \<Rightarrow> u32 \<Rightarrow> 'h world \<Rightarrow> hd44780_ret_e \<times> 'h world" where
  "hd44780_write_text_glyph ctx codepoint w =
     (let (ret, custom_char_index) = s_find_character_by_code ctx codepoint 0
      in if HD44780_OK = ret
         then (let (a, w1) = s_read_address ctx w;
                   address = (ucast a :: u32);
                   (r1, w2) = hd44780_disp_char ctx custom_char_index w1;
                   address = address + 1;
                   (r2, w3) = s_set_ddram_addr ctx (ucast address) w2
               in (ret, w3))
         else (ret, w))"

text \<open>
  \<^verbatim>\<open>text\<close> points into a buffer of \<^verbatim>\<open>char\<close>; the model takes the bytes from the
  pointer to the end of that buffer (for a C string: its characters and the terminating
  0). Plain \<^verbatim>\<open>char\<close> is unsigned, as on the ARM target of the example, so that the
  comparisons with \<^verbatim>\<open>0x7f\<close>, \<^verbatim>\<open>0xDF\<close> and \<^verbatim>\<open>0xEF\<close> classify the lead byte. A read
  beyond the buffer is undefined in C: the model returns \<open>None\<close> for the status there.
  The test of the loop reads \<^verbatim>\<open>*text\<close> only when the status is still OK.
\<close>

fun hd44780_write_text_loop ::
  "'h hd44780_ctx \<Rightarrow> hd44780_ret_e \<Rightarrow> u8 list \<Rightarrow> 'h world
     \<Rightarrow> hd44780_ret_e option \<times> 'h world" where
  "hd44780_write_text_loop ctx ret [] w =
     (if HD44780_OK = ret then (None, w) else (Some ret, w))"
| "hd44780_write_text_loop ctx ret (c # text) w =
     (if HD44780_OK = ret \<and> c \<noteq> 0
      then (if c \<le> 0x7F
            then (let (ret', w1) = s_write_data ctx c w
                  in hd44780_write_text_loop ctx ret' text w1)
            else if c \<le> 0xDF
            then (case text of
                    c1 # text1 \<Rightarrow>
                      (let codepoint = push_bit 6 (ucast (c AND 0x1F) :: u32);
                           codepoint = codepoint OR ucast (c1 AND 0x3F);
                           (ret', w1) = hd44780_write_text_glyph ctx codepoint w
                       in hd44780_write_text_loop ctx ret' text1 w1)
                  | _ \<Rightarrow> (None, w))
            else if c \<le> 0xEF
            then (case text of
                    c1 # c2 # text2 \<Rightarrow>
                      (let codepoint = push_bit 12 (ucast (c AND 0x0F) :: u32);
                           codepoint = codepoint OR push_bit 6 (ucast (c1 AND 0x3F));
                           codepoint = codepoint OR ucast (c2 AND 0x3F);
                           (ret', w1) = hd44780_write_text_glyph ctx codepoint w
                       in hd44780_write_text_loop ctx ret' text2 w1)
                  | _ \<Rightarrow> (None, w))
            else (case text of
                    c1 # c2 # c3 # text3 \<Rightarrow>
                      (let codepoint = push_bit 18 (ucast (c AND 0x07) :: u32);
                           codepoint = codepoint OR push_bit 12 (ucast (c1 AND 0x3F));
                           codepoint = codepoint OR push_bit 6 (ucast (c2 AND 0x3F));
                           codepoint = codepoint OR ucast (c3 AND 0x3F);
                           (ret', w1) = hd44780_write_text_glyph ctx codepoint w
                       in hd44780_write_text_loop ctx ret' text3 w1)
                  | _ \<Rightarrow> (None, w)))
      else (Some ret, w))"

definition hd44780_write_text ::
  "'h hd44780_ctx \<Rightarrow> u8 list \<Rightarrow> 'h world \<Rightarrow> hd44780_ret_e option \<times> 'h world" where
  "hd44780_write_text ctx text w = hd44780_write_text_loop ctx HD44780_OK text w"

subsection \<open>Initialisation\<close>

function hd44780_init_loop :: "'h hd44780_ctx \<Rightarrow> u8 \<Rightarrow> 'h world \<Rightarrow> 'h world" where
  "hd44780_init_loop ctx i w =
     (if i < 2
      then (let w1 = s_write_operation ctx (REG_INTERFACE OR REG_8_BIT_BUS) w;
                w2 = call_delay_ms ctx DELAY_INIT_SEQ_SHORT_MS w1
            in hd44780_init_loop ctx (i + 1) w2)
      else w)"
  by pat_completeness auto
termination
proof (relation "measure (\<lambda>(ctx, i, w). 2 - unat i)")
  fix ctx :: "'h hd44780_ctx" and i :: u8 and w w1 w2 :: "'h world"
  assume "i < 2"
  then have "unat i < 2" by (simp add: word_less_nat_alt)
  moreover from \<open>i < 2\<close> have "unat (i + 1) = Suc (unat i)"
    by (metis add.commute unatSuc add_eq_0_iff word_order.extremum_strict)
  ultimately show "((ctx, i + 1, w2), ctx, i, w) \<in> measure (\<lambda>(ctx, i, w). 2 - unat i)"
    by simp
qed simp

definition hd44780_init :: "'h hd44780_ctx \<Rightarrow> 'h world \<Rightarrow> hd44780_ret_e \<times> 'h world" where
  "hd44780_init ctx w =
     (let ret = HD44780_OK;
          w1 = call_init_common ctx w;
          w2 = call_set_ctrl_pin_state ctx HD44780_PIN_RS PIN_RESET w1;
          w3 = s_write_operation ctx (REG_INTERFACE OR REG_8_BIT_BUS) w2;
          w4 = call_delay_ms ctx DELAY_INIT_SEQ_LONG_MS w3;
          w5 = hd44780_init_loop ctx 0 w4;
          (ret, w6) =
            (if interface ctx = INTERFACE_8BIT
             then (ret, s_write_operation ctx
                     (REG_INTERFACE OR REG_FONT_SIZE_5X8 OR REG_TWO_LINES OR REG_8_BIT_BUS) w5)
             else (let wa = s_write_operation ctx (REG_INTERFACE OR REG_4_BIT_BUS) w5;
                       wb = call_delay_ms ctx DELAY_INIT_SEQ_SHORT_MS wa
                   in s_write_instruction ctx
                        (REG_INTERFACE OR REG_FONT_SIZE_5X8 OR REG_TWO_LINES OR REG_4_BIT_BUS) wb))
      in if HD44780_OK \<noteq> ret then (ret, w6)
         else (let (ret, w7) = hd44780_display_off ctx w6
               in if HD44780_OK \<noteq> ret then (ret, w7)
                  else (let (ret, w8) = hd44780_clear ctx w7
                        in if HD44780_OK \<noteq> ret then (ret, w8)
                           else (let (ret, w9) = s_write_instruction ctx
                                       (REG_EM OR REG_EM_SHIFT_CURSOR OR REG_EM_INCREMENT) w8
                                 in if HD44780_OK \<noteq> ret then (ret, w9)
                                    else (let (ret, w10) = hd44780_cursor_cfg ctx CURSOR_OFF w9
                                          in if HD44780_OK \<noteq> ret then (ret, w10)
                                             else s_upload_custom_chars ctx w10)))))"

section \<open>Reading the trace\<close>

text \<open>
  The events of one enable-pulsed bus write, of one byte sent over the configured bus
  width, and of one framed write whose busy-wait returned \<open>r\<close>. The lemmas below show
  that these are the events \<open>s_write_operation\<close>, \<open>s_write_byte\<close>,
  \<open>s_write_instruction\<close> and \<open>s_write_data\<close> append.
\<close>

definition write_operation_events :: "u8 \<Rightarrow> event list" where
  "write_operation_events b =
     [Set_Ctrl_Pin_State HD44780_PIN_RW PIN_RESET, Set_Bus_Direction GPIO_DIR_OUT,
      Set_Ctrl_Pin_State HD44780_PIN_E PIN_SET, Write_Bus b,
      Set_Ctrl_Pin_State HD44780_PIN_E PIN_RESET]"

definition write_byte_events :: "hd44780_interface \<Rightarrow> u8 \<Rightarrow> event list" where
  "write_byte_events iface b =
     (if iface = INTERFACE_8BIT then write_operation_events b
      else write_operation_events b @ write_operation_events (push_bit 4 b))"

definition framed_events ::
  "hd44780_interface \<Rightarrow> hd44780_pin_state \<Rightarrow> u8 \<Rightarrow> hd44780_ret_e \<Rightarrow> event list" where
  "framed_events iface rs b r =
     Wait_For_Busy_Flag_Clear r #
     (if r = HD44780_OK then Set_Ctrl_Pin_State HD44780_PIN_RS rs # write_byte_events iface b
      else [])"

text \<open>The events of one enable-pulsed bus read that returned \<open>v\<close>, and of \<open>s_read_byte\<close>.\<close>

definition read_operation_events :: "u8 \<Rightarrow> event list" where
  "read_operation_events v =
     [Set_Ctrl_Pin_State HD44780_PIN_E PIN_SET, Read_Bus v,
      Set_Ctrl_Pin_State HD44780_PIN_E PIN_RESET]"

definition read_byte_events :: "hd44780_interface \<Rightarrow> u8 \<Rightarrow> u8 \<Rightarrow> event list" where
  "read_byte_events iface a b =
     [Set_Bus_Direction GPIO_DIR_IN, Set_Ctrl_Pin_State HD44780_PIN_RW PIN_SET] @
     read_operation_events a @
     (if iface = INTERFACE_4BIT then read_operation_events b else [])"

text \<open>
  One round of the loop of \<open>s_wait_till_busy\<close> that finds the display busy: the poll
  and the sleep after it. A poll is counted by the RS-low event \<open>s_read_address\<close> starts
  with, a sleep by its \<open>Delay_Ms 1\<close>.
\<close>

definition poll_and_sleep :: "'h hd44780_ctx \<Rightarrow> 'h world \<Rightarrow> 'h world" where
  "poll_and_sleep ctx w =
     call_delay_ms ctx (ucast HD44780_TIMEOUT_TICK_MS) (snd (hd44780_is_busy ctx w))"

definition count_polls :: "event list \<Rightarrow> nat" where
  "count_polls evs = length (filter (\<lambda>e. e = Set_Ctrl_Pin_State HD44780_PIN_RS PIN_RESET) evs)"

definition count_sleeps :: "event list \<Rightarrow> nat" where
  "count_sleeps evs = length (filter (\<lambda>e. e = Delay_Ms 1) evs)"

text \<open>
  What the loop of \<open>hd44780_write_text\<close> does with a lead byte above \<open>0x7F\<close>: the
  number of bytes it consumes after the lead byte, and the code point it computes from
  them (lines 285 to 300 of the source).
\<close>

definition utf8_tail_length :: "u8 \<Rightarrow> nat" where
  "utf8_tail_length c = (if c \<le> 0xDF then 1 else if c \<le> 0xEF then 2 else 3)"

fun utf8_codepoint :: "u8 \<Rightarrow> u8 list \<Rightarrow> u32" where
  "utf8_codepoint c [c1] = push_bit 6 (ucast (c AND 0x1F)) OR ucast (c1 AND 0x3F)"
| "utf8_codepoint c [c1, c2] =
     (push_bit 12 (ucast (c AND 0x0F)) OR push_bit 6 (ucast (c1 AND 0x3F))) OR
     ucast (c2 AND 0x3F)"
| "utf8_codepoint c [c1, c2, c3] =
     ((push_bit 18 (ucast (c AND 0x07)) OR push_bit 12 (ucast (c1 AND 0x3F))) OR
      push_bit 6 (ucast (c2 AND 0x3F))) OR
     ucast (c3 AND 0x3F)"
| "utf8_codepoint c bs = 0"

section \<open>A simulated display for concrete runs\<close>

text \<open>
  Hardware that answers from a script: \<open>sim_reads\<close> are the next values of the bus
  (\<open>sim_idle\<close> once they are used up), \<open>sim_waits\<close> the next results of the busy-wait
  (OK once they are used up). \<open>sim_ready\<close> is a busy-wait that always returns OK,
  \<open>sim_stuck_read\<close> a bus whose busy flag never clears. The context is the one of
  \<^verbatim>\<open>example/src/main.c\<close>: 4 lines of 20 columns and three glyphs.
\<close>

record sim_hw =
  sim_reads :: "u8 list"
  sim_idle :: u8
  sim_waits :: "hd44780_ret_e list"

definition sim_read_bus :: "sim_hw \<Rightarrow> u8 \<times> sim_hw" where
  "sim_read_bus h =
     (case sim_reads h of [] \<Rightarrow> (sim_idle h, h) | v # vs \<Rightarrow> (v, h\<lparr>sim_reads := vs\<rparr>))"

definition sim_wait :: "sim_hw \<Rightarrow> hd44780_ret_e \<times> sim_hw" where
  "sim_wait h =
     (case sim_waits h of [] \<Rightarrow> (HD44780_OK, h) | r # rs \<Rightarrow> (r, h\<lparr>sim_waits := rs\<rparr>))"

definition sim_ready :: "sim_hw \<Rightarrow> hd44780_ret_e \<times> sim_hw" where
  "sim_ready h = (HD44780_OK, h)"

definition sim_stuck_read :: "sim_hw \<Rightarrow> u8 \<times> sim_hw" where
  "sim_stuck_read h = (0x80, h)"

definition bitmap_of :: "u8 list \<Rightarrow> u8 \<Rightarrow> u8" where
  "bitmap_of rows i = (if unat i < length rows then rows ! unat i else 0)"

definition example_mappings :: "u8 \<Rightarrow> character_mapping" where
  "example_mappings i =
     (if i = 0 then \<lparr>utf_8_code = 0xE8,
        character_bitmap = bitmap_of [0x08, 0x04, 0x0E, 0x11, 0x1F, 0x10, 0x0E, 0x00]\<rparr>
      else if i = 1 then \<lparr>utf_8_code = 0x2191,
        character_bitmap = bitmap_of [0x00, 0x04, 0x0E, 0x15, 0x04, 0x04, 0x04, 0x00]\<rparr>
      else if i = 2 then \<lparr>utf_8_code = 0x1F34C,
        character_bitmap = bitmap_of [0x08, 0x06, 0x03, 0x03, 0x03, 0x06, 0x0C, 0x10]\<rparr>
      else \<lparr>utf_8_code = 0, character_bitmap = bitmap_of []\<rparr>)"

definition example_ctx ::
  "hd44780_interface \<Rightarrow> (sim_hw \<Rightarrow> hd44780_ret_e \<times> sim_hw) \<Rightarrow> sim_hw hd44780_ctx" where
  "example_ctx iface wait_cb =
     \<lparr>cb_init_common = (\<lambda>h. h),
      cb_set_bus_direction = (\<lambda>d h. h),
      cb_set_ctrl_pin_state = (\<lambda>p s h. h),
      cb_read_bus = sim_read_bus,
      cb_write_bus = (\<lambda>b h. h),
      cb_delay_ms = (\<lambda>t h. h),
      cb_wait_for_busy_flag_clear = wait_cb,
      custom_chars_map = example_mappings,
      custom_chars_map_len = 3,
      number_of_lines = 4,
      column_width = 20,
      interface = iface\<rparr>"

definition sim_world :: "u8 list \<Rightarrow> u8 \<Rightarrow> hd44780_ret_e list \<Rightarrow> sim_hw world" where
  "sim_world rs idle ws = \<lparr>trace = [], hw = \<lparr>sim_reads = rs, sim_idle = idle, sim_waits = ws\<rparr>\<rparr>"

section \<open>Facts about the transport and the framing\<close>

declare s_wait_till_busy_loop.simps [simp del]
declare hd44780_def_char_loop.simps [simp del]
declare s_upload_custom_chars_loop.simps [simp del]
declare s_find_character_by_code_loop.simps [simp del]
declare hd44780_init_loop.simps [simp del]
declare hd44780_write_text_loop.simps [simp del]

lemmas reg_defs =
  REG_CLEAR_def REG_EM_def REG_EM_SHIFT_CURSOR_def REG_EM_INCREMENT_def
  REG_PWR_AND_CURSOR_def REG_CURSOR_BLINK_def REG_CURSOR_OFF_def REG_CURSOR_ON_def
  REG_DISPLAY_OFF_def REG_DISPLAY_ON_def REG_INTERFACE_def REG_FONT_SIZE_5X8_def
  REG_TWO_LINES_def REG_4_BIT_BUS_def REG_8_BIT_BUS_def REG_CGRAM_ADDR_SET_def
  REG_DDRAM_ADDR_SET_def DELAY_INIT_SEQ_LONG_MS_def DELAY_INIT_SEQ_SHORT_MS_def

lemmas call_defs =
  call_init_common_def call_set_bus_direction_def call_set_ctrl_pin_state_def
  call_read_bus_def call_write_bus_def call_delay_ms_def call_wait_for_busy_flag_clear_def

lemmas sim_defs =
  example_ctx_def sim_world_def sim_read_bus_def sim_wait_def sim_ready_def

lemma trace_s_write_operation:
  "trace (s_write_operation ctx b w) = trace w @ write_operation_events b"
  by (simp add: s_write_operation_def s_config_bus_as_output_def call_defs
      write_operation_events_def)

lemma trace_s_write_byte:
  "trace (s_write_byte ctx b w) = trace w @ write_byte_events (interface ctx) b"
  by (simp add: s_write_byte_def write_byte_events_def trace_s_write_operation)

lemma fst_s_write_instruction:
  "fst (s_write_instruction ctx b w) = fst (cb_wait_for_busy_flag_clear ctx (hw w))"
  by (simp add: s_write_instruction_def call_wait_for_busy_flag_clear_def split: prod.splits)

lemma trace_s_write_instruction:
  "trace (snd (s_write_instruction ctx b w)) =
     trace w @ framed_events (interface ctx) PIN_RESET b
                 (fst (cb_wait_for_busy_flag_clear ctx (hw w)))"
  by (auto simp: s_write_instruction_def call_wait_for_busy_flag_clear_def framed_events_def
      trace_s_write_byte call_set_ctrl_pin_state_def split: prod.splits)

lemma fst_s_write_data:
  "fst (s_write_data ctx b w) = fst (cb_wait_for_busy_flag_clear ctx (hw w))"
  by (simp add: s_write_data_def call_wait_for_busy_flag_clear_def split: prod.splits)

lemma trace_s_write_data:
  "trace (snd (s_write_data ctx b w)) =
     trace w @ framed_events (interface ctx) PIN_SET b
                 (fst (cb_wait_for_busy_flag_clear ctx (hw w)))"
  by (auto simp: s_write_data_def call_wait_for_busy_flag_clear_def framed_events_def
      trace_s_write_byte call_set_ctrl_pin_state_def split: prod.splits)

section \<open>Framed writes wait first\<close>

text \<open>
  Claim C5. \<open>s_write_instruction\<close> and \<open>s_write_data\<close> call the busy-wait callback
  first. When it returns TIMEOUT they return TIMEOUT and the only event is that call: the
  RS pin is not set and nothing is written to the bus. When it returns OK they set RS
  (low for an instruction, high for data) and send the byte with \<open>s_write_byte\<close>.
\<close>

theorem framed_write_waits_first:
  assumes "cb_wait_for_busy_flag_clear ctx (hw w) = (r, h)"
  shows "(r = HD44780_TIMEOUT \<longrightarrow>
            s_write_instruction ctx b w =
              (HD44780_TIMEOUT,
               \<lparr>trace = trace w @ [Wait_For_Busy_Flag_Clear HD44780_TIMEOUT], hw = h\<rparr>) \<and>
            s_write_data ctx b w =
              (HD44780_TIMEOUT,
               \<lparr>trace = trace w @ [Wait_For_Busy_Flag_Clear HD44780_TIMEOUT], hw = h\<rparr>)) \<and>
         (r = HD44780_OK \<longrightarrow>
            s_write_instruction ctx b w =
              (HD44780_OK,
               s_write_byte ctx b
                 (call_set_ctrl_pin_state ctx HD44780_PIN_RS PIN_RESET
                    \<lparr>trace = trace w @ [Wait_For_Busy_Flag_Clear HD44780_OK], hw = h\<rparr>)) \<and>
            trace (snd (s_write_instruction ctx b w)) =
              trace w @ [Wait_For_Busy_Flag_Clear HD44780_OK,
                         Set_Ctrl_Pin_State HD44780_PIN_RS PIN_RESET]
                      @ write_byte_events (interface ctx) b \<and>
            s_write_data ctx b w =
              (HD44780_OK,
               s_write_byte ctx b
                 (call_set_ctrl_pin_state ctx HD44780_PIN_RS PIN_SET
                    \<lparr>trace = trace w @ [Wait_For_Busy_Flag_Clear HD44780_OK], hw = h\<rparr>)) \<and>
            trace (snd (s_write_data ctx b w)) =
              trace w @ [Wait_For_Busy_Flag_Clear HD44780_OK,
                         Set_Ctrl_Pin_State HD44780_PIN_RS PIN_SET]
                      @ write_byte_events (interface ctx) b)"
  using assms
  by (simp add: s_write_instruction_def s_write_data_def call_wait_for_busy_flag_clear_def
      trace_s_write_byte call_set_ctrl_pin_state_def)

theorem framed_write_waits_first_witness:
  "cb_wait_for_busy_flag_clear (example_ctx INTERFACE_4BIT sim_wait)
       (hw (sim_world [] 0 [HD44780_TIMEOUT])) =
     (HD44780_TIMEOUT, \<lparr>sim_reads = [], sim_idle = 0, sim_waits = []\<rparr>) \<and>
   s_write_instruction (example_ctx INTERFACE_4BIT sim_wait) 0x48
       (sim_world [] 0 [HD44780_TIMEOUT]) =
     (HD44780_TIMEOUT,
      \<lparr>trace = [Wait_For_Busy_Flag_Clear HD44780_TIMEOUT],
       hw = \<lparr>sim_reads = [], sim_idle = 0, sim_waits = []\<rparr>\<rparr>) \<and>
   s_write_data (example_ctx INTERFACE_4BIT sim_wait) 0x48
       (sim_world [] 0 [HD44780_TIMEOUT]) =
     (HD44780_TIMEOUT,
      \<lparr>trace = [Wait_For_Busy_Flag_Clear HD44780_TIMEOUT],
       hw = \<lparr>sim_reads = [], sim_idle = 0, sim_waits = []\<rparr>\<rparr>) \<and>
   cb_wait_for_busy_flag_clear (example_ctx INTERFACE_4BIT sim_wait)
       (hw (sim_world [] 0 [])) =
     (HD44780_OK, \<lparr>sim_reads = [], sim_idle = 0, sim_waits = []\<rparr>) \<and>
   trace (snd (s_write_data (example_ctx INTERFACE_4BIT sim_wait) 0x48 (sim_world [] 0 []))) =
     [Wait_For_Busy_Flag_Clear HD44780_OK,
      Set_Ctrl_Pin_State HD44780_PIN_RS PIN_SET,
      Set_Ctrl_Pin_State HD44780_PIN_RW PIN_RESET, Set_Bus_Direction GPIO_DIR_OUT,
      Set_Ctrl_Pin_State HD44780_PIN_E PIN_SET, Write_Bus 0x48,
      Set_Ctrl_Pin_State HD44780_PIN_E PIN_RESET,
      Set_Ctrl_Pin_State HD44780_PIN_RW PIN_RESET, Set_Bus_Direction GPIO_DIR_OUT,
      Set_Ctrl_Pin_State HD44780_PIN_E PIN_SET, Write_Bus 0x80,
      Set_Ctrl_Pin_State HD44780_PIN_E PIN_RESET]"
  using framed_write_waits_first
          [of "example_ctx INTERFACE_4BIT sim_wait" "sim_world [] 0 [HD44780_TIMEOUT]"
              HD44780_TIMEOUT "\<lparr>sim_reads = [], sim_idle = 0, sim_waits = []\<rparr>" "0x48"]
        framed_write_waits_first
          [of "example_ctx INTERFACE_4BIT sim_wait" "sim_world [] 0 []"
              HD44780_OK "\<lparr>sim_reads = [], sim_idle = 0, sim_waits = []\<rparr>" "0x48"]
  by (simp add: sim_defs write_byte_events_def write_operation_events_def
      trace_s_write_byte call_set_ctrl_pin_state_def)

section \<open>Addressing\<close>

text \<open>
  Claim C8. When \<open>row\<close> is not below \<open>number_of_lines\<close> or \<open>column\<close> is not below
  \<open>column_width\<close>, \<open>hd44780_set_pos\<close> returns INV_ARG and leaves the world as it
  was: the trace gets no event (no pin change, no bus write, no busy-wait) and the
  hardware state is untouched.
\<close>

theorem set_pos_rejects_out_of_range:
  assumes "number_of_lines ctx \<le> row \<or> column_width ctx \<le> column"
  shows "hd44780_set_pos ctx row column w = (HD44780_INV_ARG, w)"
  using assms by (auto simp: hd44780_set_pos_def)

theorem set_pos_rejects_out_of_range_witness:
  "(number_of_lines (example_ctx INTERFACE_8BIT sim_ready) \<le> 4 \<or>
    column_width (example_ctx INTERFACE_8BIT sim_ready) \<le> 0) \<and>
   hd44780_set_pos (example_ctx INTERFACE_8BIT sim_ready) 4 0 (sim_world [] 0 []) =
     (HD44780_INV_ARG, sim_world [] 0 []) \<and>
   (number_of_lines (example_ctx INTERFACE_8BIT sim_ready) \<le> 1 \<or>
    column_width (example_ctx INTERFACE_8BIT sim_ready) \<le> 20) \<and>
   trace (snd (hd44780_set_pos (example_ctx INTERFACE_8BIT sim_ready) 1 20 (sim_world [] 0 []))) = []"
  using set_pos_rejects_out_of_range
          [of "example_ctx INTERFACE_8BIT sim_ready" 4 0 "sim_world [] 0 []"]
        set_pos_rejects_out_of_range
          [of "example_ctx INTERFACE_8BIT sim_ready" 1 20 "sim_world [] 0 []"]
  by (simp add: sim_defs)


text \<open>
  Claim C1. For \<open>row < number_of_lines\<close> and \<open>column < column_width\<close>,
  \<open>hd44780_set_pos\<close> is one framed instruction: the DDRAM-address-set opcode \<open>0x80\<close>
  with the address offset + column, where the offset of row 0 is \<open>0x00\<close>, of row 1
  \<open>0x40\<close>, of row 2 \<open>column_width\<close> and of row 3 \<open>0x40 + column_width\<close> (any
  other row takes the \<^verbatim>\<open>default\<close> branch, offset 0). The sum is taken in
  \<^verbatim>\<open>uint8_t\<close>. The status is the one of the busy-wait, so OK when the framed write
  succeeds.
\<close>

theorem set_pos_frames_one_ddram_address_set:
  assumes "row < number_of_lines ctx" and "column < column_width ctx"
  shows "let offset = (if row = 0 then 0x00
                       else if row = 1 then 0x40
                       else if row = 2 then column_width ctx
                       else if row = 3 then 0x40 + column_width ctx
                       else 0);
             wait = fst (cb_wait_for_busy_flag_clear ctx (hw w))
         in hd44780_set_pos ctx row column w =
              s_write_instruction ctx (REG_DDRAM_ADDR_SET OR (offset + column)) w \<and>
            trace (snd (hd44780_set_pos ctx row column w)) =
              trace w @ framed_events (interface ctx) PIN_RESET (0x80 OR (offset + column)) wait \<and>
            fst (hd44780_set_pos ctx row column w) = wait"
proof -
  define offset where "offset = (if row = 0 then 0x00
                       else if row = 1 then 0x40
                       else if row = 2 then column_width ctx
                       else if row = 3 then 0x40 + column_width ctx
                       else 0)"
  have valid: "\<not> (column_width ctx \<le> column \<or> number_of_lines ctx \<le> row)"
    using assms by (simp add: not_le)
  have "(if row = 1 then column + 0x40
         else if row = 2 then column + column_width ctx
         else if row = 3 then (column + 0x40) + column_width ctx
         else column) = offset + column"
    by (auto simp: offset_def)
  then have eq: "hd44780_set_pos ctx row column w =
        s_write_instruction ctx (REG_DDRAM_ADDR_SET OR (offset + column)) w"
    using valid by (simp add: hd44780_set_pos_def s_set_ddram_addr_def)
  show ?thesis
    unfolding Let_def offset_def [symmetric] eq
    by (simp add: trace_s_write_instruction fst_s_write_instruction REG_DDRAM_ADDR_SET_def)
qed

theorem set_pos_frames_one_ddram_address_set_witness:
  "3 < number_of_lines (example_ctx INTERFACE_8BIT sim_ready) \<and>
   17 < column_width (example_ctx INTERFACE_8BIT sim_ready) \<and>
   hd44780_set_pos (example_ctx INTERFACE_8BIT sim_ready) 3 17 (sim_world [] 0 []) =
     s_write_instruction (example_ctx INTERFACE_8BIT sim_ready) 0xE5 (sim_world [] 0 []) \<and>
   trace (snd (hd44780_set_pos (example_ctx INTERFACE_8BIT sim_ready) 3 17 (sim_world [] 0 []))) =
     [Wait_For_Busy_Flag_Clear HD44780_OK,
      Set_Ctrl_Pin_State HD44780_PIN_RS PIN_RESET,
      Set_Ctrl_Pin_State HD44780_PIN_RW PIN_RESET, Set_Bus_Direction GPIO_DIR_OUT,
      Set_Ctrl_Pin_State HD44780_PIN_E PIN_SET, Write_Bus 0xE5,
      Set_Ctrl_Pin_State HD44780_PIN_E PIN_RESET] \<and>
   fst (hd44780_set_pos (example_ctx INTERFACE_8BIT sim_ready) 3 17 (sim_world [] 0 [])) =
     HD44780_OK"
  using set_pos_frames_one_ddram_address_set
          [of 3 "example_ctx INTERFACE_8BIT sim_ready" 17 "sim_world [] 0 []"]
  by (simp add: sim_defs framed_events_def write_byte_events_def write_operation_events_def
      REG_DDRAM_ADDR_SET_def Let_def trace_s_write_instruction fst_s_write_instruction)

section \<open>Custom glyphs\<close>










section \<open>The default busy-wait: polls and sleeps\<close>

lemma sint_dec: "word_sle 0 (t :: u32) \<Longrightarrow> sint (t - 1) = sint t - 1"
proof -
  assume nonneg: "word_sle 0 t"
  have "sint (t - 1) = signed_take_bit 31 (sint t - 1)"
    by (simp add: sint_word_ariths)
  also have "\<dots> = sint t - 1"
    using nonneg sint_lt [of t]
    by (intro signed_take_bit_int_eq_self) (simp_all add: word_sle_eq)
  finally show ?thesis .
qed

lemma wait_loop_busy_step:
  assumes "word_sle 0 t" and "fst (hd44780_is_busy ctx w)"
  shows "s_wait_till_busy_loop ctx ret t w = s_wait_till_busy_loop ctx ret (t - 1) (poll_and_sleep ctx w)"
  using assms
  by (subst s_wait_till_busy_loop.simps)
     (simp add: poll_and_sleep_def HD44780_TIMEOUT_TICK_MS_def split_beta)

lemma wait_loop_ready_step:
  assumes "word_sle 0 t" and "\<not> fst (hd44780_is_busy ctx w)"
  shows "s_wait_till_busy_loop ctx ret t w = (HD44780_OK, snd (hd44780_is_busy ctx w))"
  using assms
  by (subst s_wait_till_busy_loop.simps) (simp add: split_beta)

lemma wait_loop_expired:
  assumes "\<not> word_sle 0 t"
  shows "s_wait_till_busy_loop ctx ret t w = (ret, w)"
  using assms by (subst s_wait_till_busy_loop.simps) simp

lemma wait_loop_timeout:
  "sint t = int n \<Longrightarrow>
   \<forall>j \<le> n. fst (hd44780_is_busy ctx ((poll_and_sleep ctx ^^ j) w)) \<Longrightarrow>
   s_wait_till_busy_loop ctx ret t w = (ret, (poll_and_sleep ctx ^^ Suc n) w)"
proof (induction n arbitrary: t w)
  case 0
  then have le: "word_sle 0 t" by (simp add: word_sle_eq)
  from 0 have busy: "fst (hd44780_is_busy ctx w)" by simp
  have "sint (t - 1) = - 1" using sint_dec [OF le] 0 by simp
  then have "\<not> word_sle 0 (t - 1)" by (simp add: word_sle_eq)
  then show ?case
    by (simp add: wait_loop_busy_step [OF le busy] wait_loop_expired)
next
  case (Suc n)
  then have le: "word_sle 0 t" by (simp add: word_sle_eq)
  from Suc.prems have busy: "fst (hd44780_is_busy ctx w)" by (auto dest: spec [of _ 0])
  have dec: "sint (t - 1) = int n" using sint_dec [OF le] Suc.prems by simp
  have later: "\<forall>j \<le> n. fst (hd44780_is_busy ctx ((poll_and_sleep ctx ^^ j) (poll_and_sleep ctx w)))"
  proof (intro allI impI)
    fix j assume "j \<le> n"
    then have "Suc j \<le> Suc n" by simp
    with Suc.prems(2) have "fst (hd44780_is_busy ctx ((poll_and_sleep ctx ^^ Suc j) w))" by blast
    then show "fst (hd44780_is_busy ctx ((poll_and_sleep ctx ^^ j) (poll_and_sleep ctx w)))"
      by (simp add: funpow_swap1)
  qed
  show ?case
    using Suc.IH [OF dec later]
    by (simp add: wait_loop_busy_step [OF le busy] funpow_swap1)
qed

lemma wait_loop_ok:
  "int k \<le> sint t \<Longrightarrow>
   \<forall>j < k. fst (hd44780_is_busy ctx ((poll_and_sleep ctx ^^ j) w)) \<Longrightarrow>
   \<not> fst (hd44780_is_busy ctx ((poll_and_sleep ctx ^^ k) w)) \<Longrightarrow>
   s_wait_till_busy_loop ctx ret t w =
     (HD44780_OK, snd (hd44780_is_busy ctx ((poll_and_sleep ctx ^^ k) w)))"
proof (induction k arbitrary: t w)
  case 0
  then have le: "word_sle 0 t" by (simp add: word_sle_eq)
  from 0 show ?case by (simp add: wait_loop_ready_step [OF le])
next
  case (Suc k)
  then have le: "word_sle 0 t" by (simp add: word_sle_eq)
  from Suc.prems have busy: "fst (hd44780_is_busy ctx w)" by (auto dest: spec [of _ 0])
  have dec: "int k \<le> sint (t - 1)" using sint_dec [OF le] Suc.prems by simp
  have later: "\<forall>j < k. fst (hd44780_is_busy ctx ((poll_and_sleep ctx ^^ j) (poll_and_sleep ctx w)))"
  proof (intro allI impI)
    fix j assume "j < k"
    then have "Suc j < Suc k" by simp
    with Suc.prems(2) have "fst (hd44780_is_busy ctx ((poll_and_sleep ctx ^^ Suc j) w))" by blast
    then show "fst (hd44780_is_busy ctx ((poll_and_sleep ctx ^^ j) (poll_and_sleep ctx w)))"
      by (simp add: funpow_swap1)
  qed
  have last: "\<not> fst (hd44780_is_busy ctx ((poll_and_sleep ctx ^^ k) (poll_and_sleep ctx w)))"
    using Suc.prems(3) by (simp add: funpow_swap1)
  show ?case
    using Suc.IH [OF dec later last]
    by (simp add: wait_loop_busy_step [OF le busy] funpow_swap1)
qed

lemma s_read_byte_events:
  "\<exists>a b. trace (snd (s_read_byte ctx w)) = trace w @ read_byte_events (interface ctx) a b \<and>
         fst (s_read_byte ctx w) =
           (if interface ctx = INTERFACE_4BIT then a OR drop_bit 4 b else a)"
proof (cases "interface ctx = INTERFACE_4BIT")
  case True
  then show ?thesis
    by (simp add: s_read_byte_def s_read_operation_def s_config_bus_as_input_def call_defs
        read_byte_events_def read_operation_events_def split_beta Let_def)
next
  case False
  then show ?thesis
    by (simp add: s_read_byte_def s_read_operation_def s_config_bus_as_input_def call_defs
        read_byte_events_def read_operation_events_def split_beta Let_def)
qed

lemma s_read_address_events:
  "\<exists>a b. trace (snd (s_read_address ctx w)) =
           trace w @ Set_Ctrl_Pin_State HD44780_PIN_RS PIN_RESET #
                     read_byte_events (interface ctx) a b \<and>
         fst (s_read_address ctx w) =
           (if interface ctx = INTERFACE_4BIT then a OR drop_bit 4 b else a)"
  using s_read_byte_events [of ctx "call_set_ctrl_pin_state ctx HD44780_PIN_RS PIN_RESET w"]
  by (simp add: s_read_address_def call_set_ctrl_pin_state_def)

lemma count_append:
  "count_polls (xs @ ys) = count_polls xs + count_polls ys"
  "count_sleeps (xs @ ys) = count_sleeps xs + count_sleeps ys"
  by (simp_all add: count_polls_def count_sleeps_def)

lemma count_polls_is_busy:
  "count_polls (trace (snd (hd44780_is_busy ctx w))) = Suc (count_polls (trace w))"
  "count_sleeps (trace (snd (hd44780_is_busy ctx w))) = count_sleeps (trace w)"
  using s_read_address_events [of ctx w]
  by (auto simp: hd44780_is_busy_def split_beta count_append)
     (simp_all add: count_polls_def count_sleeps_def
        read_byte_events_def read_operation_events_def)

lemma count_polls_poll_and_sleep:
  "count_polls (trace (poll_and_sleep ctx w)) = Suc (count_polls (trace w))"
  "count_sleeps (trace (poll_and_sleep ctx w)) = Suc (count_sleeps (trace w))"
  by (simp_all add: poll_and_sleep_def call_delay_ms_def count_polls_is_busy count_append
      HD44780_TIMEOUT_TICK_MS_def)
     (simp_all add: count_polls_def count_sleeps_def)

lemma count_polls_rounds:
  "count_polls (trace ((poll_and_sleep ctx ^^ n) w)) = count_polls (trace w) + n"
  "count_sleeps (trace ((poll_and_sleep ctx ^^ n) w)) = count_sleeps (trace w) + n"
  by (induction n) (simp_all add: count_polls_poll_and_sleep)

lemma is_busy_when_flag_stuck:
  assumes "\<forall>h. fst (cb_read_bus ctx h) AND 0x80 \<noteq> 0"
  shows "fst (hd44780_is_busy ctx w)"
proof -
  have high: "(a OR b) AND 0x80 \<noteq> 0" if "a AND 0x80 \<noteq> 0" for a b :: u8
    using that by (simp add: bit.conj_disj_distrib2 or_eq_0_iff)
  show ?thesis
    using assms
    by (auto simp: hd44780_is_busy_def s_read_address_def s_read_byte_def s_read_operation_def
        s_config_bus_as_input_def call_defs split_beta Let_def
        intro!: high)
qed

lemma wait_till_busy_timeout:
  assumes "\<forall>j \<le> 100. fst (hd44780_is_busy ctx ((poll_and_sleep ctx ^^ j) w))"
  shows "s_wait_till_busy ctx w = (HD44780_TIMEOUT, (poll_and_sleep ctx ^^ 101) w)"
proof -
  have "sint HD44780_TIMEOUT_MS = int 100" by (simp add: HD44780_TIMEOUT_MS_def)
  from wait_loop_timeout [OF this assms] show ?thesis
    by (simp add: s_wait_till_busy_def eval_nat_numeral)
qed

lemma wait_till_busy_ok:
  assumes "k \<le> 100"
    and "\<forall>j < k. fst (hd44780_is_busy ctx ((poll_and_sleep ctx ^^ j) w))"
    and "\<not> fst (hd44780_is_busy ctx ((poll_and_sleep ctx ^^ k) w))"
  shows "s_wait_till_busy ctx w =
           (HD44780_OK, snd (hd44780_is_busy ctx ((poll_and_sleep ctx ^^ k) w)))"
proof -
  have "int k \<le> sint HD44780_TIMEOUT_MS" using assms(1) by (simp add: HD44780_TIMEOUT_MS_def)
  from wait_loop_ok [OF this assms(2,3)] show ?thesis
    by (simp add: s_wait_till_busy_def)
qed

text \<open>
  Claim C6, as the code has it. \<open>s_wait_till_busy\<close> polls the busy flag (bit 7 of an
  instruction-mode read) and sleeps one tick of 1 ms after every poll that finds it set.
  It returns OK at the first poll that finds the flag clear: after \<open>k\<close> busy polls that
  is poll \<open>k + 1\<close>, with \<open>k\<close> sleeps, for every \<open>k \<le> 100\<close>. The loop runs while
  \<^verbatim>\<open>0 <= timeout_ms\<close>, for \<^verbatim>\<open>timeout_ms\<close> = 100, 99, ..., 0: when the flag never
  clears it returns TIMEOUT after 101 polls and 101 sleeps, one more than ceiling / tick.
\<close>

theorem wait_till_busy_polls_through_ceiling:
  "(k \<le> 100 \<and>
    (\<forall>j < k. fst (hd44780_is_busy ctx ((poll_and_sleep ctx ^^ j) w))) \<and>
    \<not> fst (hd44780_is_busy ctx ((poll_and_sleep ctx ^^ k) w)) \<longrightarrow>
      s_wait_till_busy ctx w =
        (HD44780_OK, snd (hd44780_is_busy ctx ((poll_and_sleep ctx ^^ k) w))) \<and>
      count_polls (trace (snd (s_wait_till_busy ctx w))) = count_polls (trace w) + k + 1 \<and>
      count_sleeps (trace (snd (s_wait_till_busy ctx w))) = count_sleeps (trace w) + k) \<and>
   ((\<forall>j \<le> 100. fst (hd44780_is_busy ctx ((poll_and_sleep ctx ^^ j) w))) \<longrightarrow>
      s_wait_till_busy ctx w = (HD44780_TIMEOUT, (poll_and_sleep ctx ^^ 101) w) \<and>
      count_polls (trace (snd (s_wait_till_busy ctx w))) = count_polls (trace w) + 101 \<and>
      count_sleeps (trace (snd (s_wait_till_busy ctx w))) = count_sleeps (trace w) + 101)"
proof (intro conjI impI; (elim conjE)?)
  assume "\<forall>j \<le> 100. fst (hd44780_is_busy ctx ((poll_and_sleep ctx ^^ j) w))"
  from wait_till_busy_timeout [OF this]
  show "s_wait_till_busy ctx w = (HD44780_TIMEOUT, (poll_and_sleep ctx ^^ 101) w)"
    and "count_polls (trace (snd (s_wait_till_busy ctx w))) = count_polls (trace w) + 101"
    and "count_sleeps (trace (snd (s_wait_till_busy ctx w))) = count_sleeps (trace w) + 101"
    by (simp_all add: count_polls_rounds)
next
  assume "k \<le> 100"
    and "\<forall>j < k. fst (hd44780_is_busy ctx ((poll_and_sleep ctx ^^ j) w))"
    and "\<not> fst (hd44780_is_busy ctx ((poll_and_sleep ctx ^^ k) w))"
  from wait_till_busy_ok [OF this]
  show "s_wait_till_busy ctx w =
        (HD44780_OK, snd (hd44780_is_busy ctx ((poll_and_sleep ctx ^^ k) w)))"
    and "count_polls (trace (snd (s_wait_till_busy ctx w))) = count_polls (trace w) + k + 1"
    and "count_sleeps (trace (snd (s_wait_till_busy ctx w))) = count_sleeps (trace w) + k"
    by (simp_all add: count_polls_is_busy count_polls_rounds)
qed

theorem wait_till_busy_polls_through_ceiling_witness:
  "fst (hd44780_is_busy (example_ctx INTERFACE_8BIT sim_ready) (sim_world [0x80, 0x85, 0x05] 0 [])) \<and>
   fst (hd44780_is_busy (example_ctx INTERFACE_8BIT sim_ready)
          (poll_and_sleep (example_ctx INTERFACE_8BIT sim_ready)
             (sim_world [0x80, 0x85, 0x05] 0 []))) \<and>
   \<not> fst (hd44780_is_busy (example_ctx INTERFACE_8BIT sim_ready)
            (poll_and_sleep (example_ctx INTERFACE_8BIT sim_ready)
               (poll_and_sleep (example_ctx INTERFACE_8BIT sim_ready)
                  (sim_world [0x80, 0x85, 0x05] 0 [])))) \<and>
   fst (s_wait_till_busy (example_ctx INTERFACE_8BIT sim_ready)
          (sim_world [0x80, 0x85, 0x05] 0 [])) = HD44780_OK \<and>
   count_polls (trace (snd (s_wait_till_busy (example_ctx INTERFACE_8BIT sim_ready)
                              (sim_world [0x80, 0x85, 0x05] 0 [])))) = 3 \<and>
   count_sleeps (trace (snd (s_wait_till_busy (example_ctx INTERFACE_8BIT sim_ready)
                               (sim_world [0x80, 0x85, 0x05] 0 [])))) = 2 \<and>
   (\<forall>h. fst (cb_read_bus
              ((example_ctx INTERFACE_4BIT sim_ready)\<lparr>cb_read_bus := sim_stuck_read\<rparr>) h)
          AND 0x80 \<noteq> 0) \<and>
   fst (s_wait_till_busy
          ((example_ctx INTERFACE_4BIT sim_ready)\<lparr>cb_read_bus := sim_stuck_read\<rparr>)
          (sim_world [] 0 [])) = HD44780_TIMEOUT \<and>
   count_polls (trace (snd (s_wait_till_busy
          ((example_ctx INTERFACE_4BIT sim_ready)\<lparr>cb_read_bus := sim_stuck_read\<rparr>)
          (sim_world [] 0 [])))) = 101 \<and>
   count_sleeps (trace (snd (s_wait_till_busy
          ((example_ctx INTERFACE_4BIT sim_ready)\<lparr>cb_read_bus := sim_stuck_read\<rparr>)
          (sim_world [] 0 [])))) = 101"
proof -
  let ?ctx = "example_ctx INTERFACE_8BIT sim_ready"
  let ?w = "sim_world [0x80, 0x85, 0x05] 0 []"
  have b0: "fst (hd44780_is_busy ?ctx ?w)"
    by (simp add: hd44780_is_busy_def s_read_address_def s_read_byte_def s_read_operation_def
        s_config_bus_as_input_def call_defs sim_defs)
  have b1: "fst (hd44780_is_busy ?ctx (poll_and_sleep ?ctx ?w))"
    by (simp add: poll_and_sleep_def hd44780_is_busy_def s_read_address_def s_read_byte_def
        s_read_operation_def s_config_bus_as_input_def call_defs sim_defs)
  have b2: "\<not> fst (hd44780_is_busy ?ctx (poll_and_sleep ?ctx (poll_and_sleep ?ctx ?w)))"
    by (simp add: poll_and_sleep_def hd44780_is_busy_def s_read_address_def s_read_byte_def
        s_read_operation_def s_config_bus_as_input_def call_defs sim_defs)
  have upto: "\<forall>j < 2. fst (hd44780_is_busy ?ctx ((poll_and_sleep ?ctx ^^ j) ?w))"
    using b0 b1 by (simp add: less_Suc_eq numeral_2_eq_2)
  have last: "\<not> fst (hd44780_is_busy ?ctx ((poll_and_sleep ?ctx ^^ 2) ?w))"
    using b2 by (simp add: numeral_2_eq_2)
  have start: "count_polls (trace ?w) = 0" "count_sleeps (trace ?w) = 0"
    by (simp_all add: sim_world_def count_polls_def count_sleeps_def)
  from wait_till_busy_polls_through_ceiling [of 2 ?ctx ?w] upto last
  have "fst (s_wait_till_busy ?ctx ?w) = HD44780_OK \<and>
        count_polls (trace (snd (s_wait_till_busy ?ctx ?w))) = count_polls (trace ?w) + 2 + 1 \<and>
        count_sleeps (trace (snd (s_wait_till_busy ?ctx ?w))) = count_sleeps (trace ?w) + 2"
    by (simp add: count_polls_is_busy count_polls_rounds)
  then have cleared: "fst (s_wait_till_busy ?ctx ?w) = HD44780_OK \<and>
        count_polls (trace (snd (s_wait_till_busy ?ctx ?w))) = 3 \<and>
        count_sleeps (trace (snd (s_wait_till_busy ?ctx ?w))) = 2"
    using start by simp
  let ?stuck = "(example_ctx INTERFACE_4BIT sim_ready)\<lparr>cb_read_bus := sim_stuck_read\<rparr>"
  let ?v = "sim_world [] 0 []"
  have flag: "\<forall>h. fst (cb_read_bus ?stuck h) AND 0x80 \<noteq> 0"
    by (simp add: sim_stuck_read_def)
  have always: "\<forall>j \<le> 100. fst (hd44780_is_busy ?stuck ((poll_and_sleep ?stuck ^^ j) ?v))"
    by (simp add: is_busy_when_flag_stuck [OF flag])
  have zero: "count_polls (trace ?v) = 0" "count_sleeps (trace ?v) = 0"
    by (simp_all add: sim_world_def count_polls_def count_sleeps_def)
  from wait_till_busy_polls_through_ceiling [of 0 ?stuck ?v] always
  have "fst (s_wait_till_busy ?stuck ?v) = HD44780_TIMEOUT \<and>
        count_polls (trace (snd (s_wait_till_busy ?stuck ?v))) = count_polls (trace ?v) + 101 \<and>
        count_sleeps (trace (snd (s_wait_till_busy ?stuck ?v))) = count_sleeps (trace ?v) + 101"
    by (simp add: count_polls_rounds)
  then have stuck: "fst (s_wait_till_busy ?stuck ?v) = HD44780_TIMEOUT \<and>
        count_polls (trace (snd (s_wait_till_busy ?stuck ?v))) = 101 \<and>
        count_sleeps (trace (snd (s_wait_till_busy ?stuck ?v))) = 101"
    using zero by simp
  from b0 b1 b2 cleared flag stuck show ?thesis by blast
qed

text \<open>
  A display whose busy flag is stuck: 101 polls, not 100.
\<close>

theorem wait_till_busy_timeout_counterexample:
  "fst (s_wait_till_busy
         ((example_ctx INTERFACE_8BIT sim_ready)\<lparr>cb_read_bus := sim_stuck_read\<rparr>)
         (sim_world [] 0 [])) = HD44780_TIMEOUT \<and>
   count_polls (trace (snd (s_wait_till_busy
         ((example_ctx INTERFACE_8BIT sim_ready)\<lparr>cb_read_bus := sim_stuck_read\<rparr>)
         (sim_world [] 0 [])))) = 101 \<and>
   count_polls (trace (snd (s_wait_till_busy
         ((example_ctx INTERFACE_8BIT sim_ready)\<lparr>cb_read_bus := sim_stuck_read\<rparr>)
         (sim_world [] 0 [])))) \<noteq> 100"
proof -
  let ?ctx = "(example_ctx INTERFACE_8BIT sim_ready)\<lparr>cb_read_bus := sim_stuck_read\<rparr>"
  let ?w = "sim_world [] 0 []"
  have stuck: "\<forall>h. fst (cb_read_bus ?ctx h) AND 0x80 \<noteq> 0"
    by (simp add: sim_stuck_read_def)
  have "\<forall>j \<le> 100. fst (hd44780_is_busy ?ctx ((poll_and_sleep ?ctx ^^ j) ?w))"
    by (simp add: is_busy_when_flag_stuck [OF stuck])
  from wait_till_busy_timeout [OF this]
  have "s_wait_till_busy ?ctx ?w = (HD44780_TIMEOUT, (poll_and_sleep ?ctx ^^ 101) ?w)" .
  moreover have "count_polls (trace ?w) = 0"
    by (simp add: sim_world_def count_polls_def)
  ultimately show ?thesis by (simp add: count_polls_rounds)
qed

section \<open>Reading a byte over the 4-bit bus\<close>

text \<open>
  With the reads \<open>a\<close> and \<open>b\<close>, \<open>s_read_byte\<close> returns \<open>a OR drop_bit 4 b\<close> on the 4-bit
  bus (lemma \<open>s_read_byte_events\<close>). Its high nibble is the one of \<open>a\<close>; its low nibble
  is the low nibble of \<open>a\<close> OR-ed with the high nibble of \<open>b\<close>.
\<close>

lemma read_byte_4bit_nibbles:
  fixes a b :: u8
  shows "(a OR drop_bit 4 b) AND 0xF0 = a AND 0xF0"
    and "(a OR drop_bit 4 b) AND 0x0F = (a AND 0x0F) OR drop_bit 4 b"
proof -
  have low_mask: "(0x0F :: u8) = mask 4" and high_mask: "(0xF0 :: u8) = NOT (mask 4)"
    by (simp_all add: mask_eq_exp_minus_1)
  have lo: "drop_bit 4 b AND mask 4 = drop_bit 4 b"
    by (rule bit_word_eqI) (auto simp: bit_simps dest: bit_imp_le_length)
  have hi: "drop_bit 4 b AND NOT (mask 4) = 0"
    by (rule bit_word_eqI) (auto simp: bit_simps dest: bit_imp_le_length)
  show "(a OR drop_bit 4 b) AND 0xF0 = a AND 0xF0"
    unfolding high_mask by (simp add: bit.conj_disj_distrib2 hi)
  show "(a OR drop_bit 4 b) AND 0x0F = (a AND 0x0F) OR drop_bit 4 b"
    unfolding low_mask by (simp add: bit.conj_disj_distrib2 lo)
qed

text \<open>
  Claim C9 at a concrete run. In 4-bit mode \<open>s_read_byte\<close> pulses enable twice and
  returns the first read OR-ed with the second read shifted right by 4. The low nibble
  of the first read, which the callback contract leaves undefined, is not masked: with
  the reads \<open>0x4F\<close> and \<open>0x20\<close> the result is \<open>0x4F\<close>, whose low nibble is not the
  high nibble \<open>2\<close> of the second read.
\<close>

theorem read_byte_4bit_keeps_low_nibble_of_first_read:
  "s_read_byte (example_ctx INTERFACE_4BIT sim_ready) (sim_world [0x4F, 0x20] 0 []) =
     (0x4F,
      \<lparr>trace = [Set_Bus_Direction GPIO_DIR_IN, Set_Ctrl_Pin_State HD44780_PIN_RW PIN_SET,
                Set_Ctrl_Pin_State HD44780_PIN_E PIN_SET, Read_Bus 0x4F,
                Set_Ctrl_Pin_State HD44780_PIN_E PIN_RESET,
                Set_Ctrl_Pin_State HD44780_PIN_E PIN_SET, Read_Bus 0x20,
                Set_Ctrl_Pin_State HD44780_PIN_E PIN_RESET],
       hw = \<lparr>sim_reads = [], sim_idle = 0, sim_waits = []\<rparr>\<rparr>) \<and>
   fst (s_read_byte (example_ctx INTERFACE_4BIT sim_ready) (sim_world [0x4F, 0x20] 0 []))
     AND 0x0F \<noteq> drop_bit 4 0x20"
  by (simp add: s_read_byte_def s_read_operation_def s_config_bus_as_input_def call_defs
      sim_defs)

section \<open>Initialisation with an oversized glyph map\<close>

lemma init_loop_unroll:
  "hd44780_init_loop ctx 0 w =
     call_delay_ms ctx DELAY_INIT_SEQ_SHORT_MS
       (s_write_operation ctx (REG_INTERFACE OR REG_8_BIT_BUS)
          (call_delay_ms ctx DELAY_INIT_SEQ_SHORT_MS
             (s_write_operation ctx (REG_INTERFACE OR REG_8_BIT_BUS) w)))"
  apply (subst hd44780_init_loop.simps, simp)
  apply (subst hd44780_init_loop.simps, simp)
  apply (subst hd44780_init_loop.simps, simp)
  done

lemma upload_oversized:
  "8 < custom_chars_map_len ctx \<Longrightarrow>
     s_upload_custom_chars ctx w = (HD44780_CUSTOM_CHARS_INV, w)"
  by (simp add: s_upload_custom_chars_def)

lemma upload_empty:
  "custom_chars_map_len ctx = 0 \<Longrightarrow> s_upload_custom_chars ctx w = (HD44780_OK, w)"
  by (simp add: s_upload_custom_chars_def s_upload_custom_chars_loop.simps)

lemma map_len_irrelevant_calls:
  "call_delay_ms (ctx\<lparr>custom_chars_map_len := n\<rparr>) t w = call_delay_ms ctx t w"
  "call_init_common (ctx\<lparr>custom_chars_map_len := n\<rparr>) w = call_init_common ctx w"
  "call_set_ctrl_pin_state (ctx\<lparr>custom_chars_map_len := n\<rparr>) p s w =
     call_set_ctrl_pin_state ctx p s w"
  "call_set_bus_direction (ctx\<lparr>custom_chars_map_len := n\<rparr>) d w =
     call_set_bus_direction ctx d w"
  "call_write_bus (ctx\<lparr>custom_chars_map_len := n\<rparr>) b w = call_write_bus ctx b w"
  "call_wait_for_busy_flag_clear (ctx\<lparr>custom_chars_map_len := n\<rparr>) w =
     call_wait_for_busy_flag_clear ctx w"
  by (simp_all add: call_defs)

lemma map_len_irrelevant_write_operation:
  "s_write_operation (ctx\<lparr>custom_chars_map_len := n\<rparr>) b w = s_write_operation ctx b w"
  by (simp add: s_write_operation_def s_config_bus_as_output_def map_len_irrelevant_calls)

lemma map_len_irrelevant_write_instruction:
  "s_write_instruction (ctx\<lparr>custom_chars_map_len := n\<rparr>) b w = s_write_instruction ctx b w"
  by (simp add: s_write_instruction_def s_write_byte_def map_len_irrelevant_calls
      map_len_irrelevant_write_operation Let_def split_beta cong: if_cong)

lemmas map_len_irrelevant =
  map_len_irrelevant_calls map_len_irrelevant_write_operation
  map_len_irrelevant_write_instruction

lemma init_then_upload:
  "hd44780_init ctx w =
     (case hd44780_init (ctx\<lparr>custom_chars_map_len := 0\<rparr>) w of
        (r, w') \<Rightarrow> if r = HD44780_OK then s_upload_custom_chars ctx w' else (r, w'))"
  by (simp add: hd44780_init_def init_loop_unroll map_len_irrelevant hd44780_display_off_def
      hd44780_clear_def hd44780_cursor_cfg_def upload_empty split_beta Let_def cong: if_cong)

lemma init_ready_trace:
  assumes ready: "\<forall>h. fst (cb_wait_for_busy_flag_clear ctx h) = HD44780_OK"
    and empty: "custom_chars_map_len ctx = 0"
  shows "fst (hd44780_init ctx w) = HD44780_OK"
    and "trace (snd (hd44780_init ctx w)) =
      trace w @
      [Init_Common, Set_Ctrl_Pin_State HD44780_PIN_RS PIN_RESET] @
      write_operation_events 0x30 @ [Delay_Ms 50] @
      write_operation_events 0x30 @ [Delay_Ms 10] @
      write_operation_events 0x30 @ [Delay_Ms 10] @
      (if interface ctx = INTERFACE_8BIT then write_operation_events 0x38
       else write_operation_events 0x20 @ [Delay_Ms 10] @
            framed_events (interface ctx) PIN_RESET 0x28 HD44780_OK) @
      framed_events (interface ctx) PIN_RESET 0x08 HD44780_OK @
      framed_events (interface ctx) PIN_RESET 0x01 HD44780_OK @
      framed_events (interface ctx) PIN_RESET 0x06 HD44780_OK @
      framed_events (interface ctx) PIN_RESET 0x0C HD44780_OK"
  using ready
  by (simp_all add: hd44780_init_def init_loop_unroll hd44780_display_off_def
      hd44780_clear_def hd44780_cursor_cfg_def upload_empty [OF empty] split_beta Let_def
      fst_s_write_instruction trace_s_write_instruction trace_s_write_operation
      call_init_common_def call_set_ctrl_pin_state_def call_delay_ms_def reg_defs)

lemma trace_s_write_instruction_status:
  "trace (snd (s_write_instruction ctx b w)) =
     trace w @ framed_events (interface ctx) PIN_RESET b (fst (s_write_instruction ctx b w))"
  by (simp add: trace_s_write_instruction fst_s_write_instruction)

text \<open>
  With more than eight glyphs, initialisation is the raw wake-up sequence followed by the
  framed instructions in order, each one run only when the one before returned OK; the
  result is that of the first framed instruction that fails, and CUSTOM_CHARS_INV after
  the last one otherwise.
\<close>

lemma init_oversized_run:
  assumes "8 < custom_chars_map_len ctx"
  shows "(let wr = call_delay_ms ctx 10 (s_write_operation ctx 0x30
                  (call_delay_ms ctx 10 (s_write_operation ctx 0x30
                  (call_delay_ms ctx 50 (s_write_operation ctx 0x30
                  (call_set_ctrl_pin_state ctx HD44780_PIN_RS PIN_RESET
                  (call_init_common ctx w)))))));
              w0 = (if interface ctx = INTERFACE_8BIT then s_write_operation ctx 0x38 wr
                    else call_delay_ms ctx 10 (s_write_operation ctx 0x20 wr));
              s1 = (if interface ctx = INTERFACE_8BIT then (HD44780_OK, w0)
                    else s_write_instruction ctx 0x28 w0);
              s2 = s_write_instruction ctx 0x08 (snd s1);
              s3 = s_write_instruction ctx 0x01 (snd s2);
              s4 = s_write_instruction ctx 0x06 (snd s3);
              s5 = s_write_instruction ctx 0x0C (snd s4)
          in hd44780_init ctx w =
               (if fst s1 \<noteq> HD44780_OK then s1
                else if fst s2 \<noteq> HD44780_OK then s2
                else if fst s3 \<noteq> HD44780_OK then s3
                else if fst s4 \<noteq> HD44780_OK then s4
                else if fst s5 \<noteq> HD44780_OK then s5
                else (HD44780_CUSTOM_CHARS_INV, snd s5)) \<and>
             trace (snd (hd44780_init ctx w)) =
               trace w @
               [Init_Common, Set_Ctrl_Pin_State HD44780_PIN_RS PIN_RESET] @
               write_operation_events 0x30 @ [Delay_Ms 50] @
               write_operation_events 0x30 @ [Delay_Ms 10] @
               write_operation_events 0x30 @ [Delay_Ms 10] @
               (if interface ctx = INTERFACE_8BIT then write_operation_events 0x38
                else write_operation_events 0x20 @ [Delay_Ms 10] @
                     framed_events (interface ctx) PIN_RESET 0x28 (fst s1)) @
               (if fst s1 \<noteq> HD44780_OK then []
                else framed_events (interface ctx) PIN_RESET 0x08 (fst s2) @
               (if fst s2 \<noteq> HD44780_OK then []
                else framed_events (interface ctx) PIN_RESET 0x01 (fst s3) @
               (if fst s3 \<noteq> HD44780_OK then []
                else framed_events (interface ctx) PIN_RESET 0x06 (fst s4) @
               (if fst s4 \<noteq> HD44780_OK then []
                else framed_events (interface ctx) PIN_RESET 0x0C (fst s5))))))"
proof -
  define wr where "wr = call_delay_ms ctx 10 (s_write_operation ctx 0x30
                  (call_delay_ms ctx 10 (s_write_operation ctx 0x30
                  (call_delay_ms ctx 50 (s_write_operation ctx 0x30
                  (call_set_ctrl_pin_state ctx HD44780_PIN_RS PIN_RESET
                  (call_init_common ctx w)))))))"
  define w0 where "w0 = (if interface ctx = INTERFACE_8BIT then s_write_operation ctx 0x38 wr
                    else call_delay_ms ctx 10 (s_write_operation ctx 0x20 wr))"
  define s1 where "s1 = (if interface ctx = INTERFACE_8BIT then (HD44780_OK, w0)
                    else s_write_instruction ctx 0x28 w0)"
  define s2 where "s2 = s_write_instruction ctx 0x08 (snd s1)"
  define s3 where "s3 = s_write_instruction ctx 0x01 (snd s2)"
  define s4 where "s4 = s_write_instruction ctx 0x06 (snd s3)"
  define s5 where "s5 = s_write_instruction ctx 0x0C (snd s4)"
  have run: "hd44780_init ctx w =
               (if fst s1 \<noteq> HD44780_OK then s1
                else if fst s2 \<noteq> HD44780_OK then s2
                else if fst s3 \<noteq> HD44780_OK then s3
                else if fst s4 \<noteq> HD44780_OK then s4
                else if fst s5 \<noteq> HD44780_OK then s5
                else (HD44780_CUSTOM_CHARS_INV, snd s5))"
    using assms unfolding s5_def s4_def s3_def s2_def s1_def w0_def wr_def
    by (simp add: hd44780_init_def init_loop_unroll hd44780_display_off_def hd44780_clear_def
        hd44780_cursor_cfg_def upload_oversized split_beta Let_def reg_defs
        DELAY_INIT_SEQ_LONG_MS_def DELAY_INIT_SEQ_SHORT_MS_def)
  have twr: "trace wr = trace w @
               [Init_Common, Set_Ctrl_Pin_State HD44780_PIN_RS PIN_RESET] @
               write_operation_events 0x30 @ [Delay_Ms 50] @
               write_operation_events 0x30 @ [Delay_Ms 10] @
               write_operation_events 0x30 @ [Delay_Ms 10]"
    by (simp add: wr_def trace_s_write_operation
        call_init_common_def call_set_ctrl_pin_state_def call_delay_ms_def)
  have t1: "trace (snd s1) = trace wr @
               (if interface ctx = INTERFACE_8BIT then write_operation_events 0x38
                else write_operation_events 0x20 @ [Delay_Ms 10] @
                     framed_events (interface ctx) PIN_RESET 0x28 (fst s1))"
    by (simp add: s1_def w0_def trace_s_write_operation call_delay_ms_def
        trace_s_write_instruction_status)
  have t2: "trace (snd s2) =
              trace (snd s1) @ framed_events (interface ctx) PIN_RESET 0x08 (fst s2)"
    by (simp add: s2_def trace_s_write_instruction_status)
  have t3: "trace (snd s3) =
              trace (snd s2) @ framed_events (interface ctx) PIN_RESET 0x01 (fst s3)"
    by (simp add: s3_def trace_s_write_instruction_status)
  have t4: "trace (snd s4) =
              trace (snd s3) @ framed_events (interface ctx) PIN_RESET 0x06 (fst s4)"
    by (simp add: s4_def trace_s_write_instruction_status)
  have t5: "trace (snd s5) =
              trace (snd s4) @ framed_events (interface ctx) PIN_RESET 0x0C (fst s5)"
    by (simp add: s5_def trace_s_write_instruction_status)
  have f1: "interface ctx = INTERFACE_8BIT \<Longrightarrow> fst s1 = HD44780_OK"
    by (simp add: s1_def)
  have tr: "trace (snd (hd44780_init ctx w)) =
               trace w @
               [Init_Common, Set_Ctrl_Pin_State HD44780_PIN_RS PIN_RESET] @
               write_operation_events 0x30 @ [Delay_Ms 50] @
               write_operation_events 0x30 @ [Delay_Ms 10] @
               write_operation_events 0x30 @ [Delay_Ms 10] @
               (if interface ctx = INTERFACE_8BIT then write_operation_events 0x38
                else write_operation_events 0x20 @ [Delay_Ms 10] @
                     framed_events (interface ctx) PIN_RESET 0x28 (fst s1)) @
               (if fst s1 \<noteq> HD44780_OK then []
                else framed_events (interface ctx) PIN_RESET 0x08 (fst s2) @
               (if fst s2 \<noteq> HD44780_OK then []
                else framed_events (interface ctx) PIN_RESET 0x01 (fst s3) @
               (if fst s3 \<noteq> HD44780_OK then []
                else framed_events (interface ctx) PIN_RESET 0x06 (fst s4) @
               (if fst s4 \<noteq> HD44780_OK then []
                else framed_events (interface ctx) PIN_RESET 0x0C (fst s5)))))"
    unfolding run using f1 by (simp add: t5 t4 t3 t2 t1 twr)
  show ?thesis
    unfolding Let_def
    using run tr
    unfolding s5_def s4_def s3_def s2_def s1_def w0_def wr_def
    by (rule conjI)
qed

lemma init_oversized_no_rs_set:
  assumes "8 < custom_chars_map_len ctx"
  shows "Set_Ctrl_Pin_State HD44780_PIN_RS PIN_SET
           \<notin> set (drop (length (trace w)) (trace (snd (hd44780_init ctx w))))"
  using init_oversized_run [OF assms, of w, unfolded Let_def, THEN conjunct2]
  by (simp add: framed_events_def write_byte_events_def write_operation_events_def)

text \<open>
  Claim C4, as the code has it. With \<open>custom_chars_map_len > 8\<close> the upload step
  returns CUSTOM_CHARS_INV at once and leaves the world as it was, so \<open>hd44780_init\<close>
  sets no CGRAM address and writes no bitmap byte: RS is never set high, whatever the
  callbacks do. Its result is stated outright. After the raw wake-up sequence
  (\<open>0x30\<close> three times, then \<open>0x38\<close>, or \<open>0x20\<close> in 4-bit mode) the framed instructions
  \<open>0x28\<close> (4-bit mode only), \<open>0x08\<close>, \<open>0x01\<close>, \<open>0x06\<close>, \<open>0x0C\<close> run in this order, each
  only when the one before returned OK. The status and the world are those of the first
  framed instruction whose status is not OK, and nothing follows it on the bus; when all
  of them return OK the status is CUSTOM_CHARS_INV. The bus activity is the one of an
  initialisation with an empty glyph map, and when every busy-wait returns OK the trace
  is the fixed sequence below.
\<close>

theorem init_oversized_map_uploads_nothing:
  assumes "8 < custom_chars_map_len ctx"
  shows "s_upload_custom_chars ctx w = (HD44780_CUSTOM_CHARS_INV, w) \<and>
         (let wr = call_delay_ms ctx 10 (s_write_operation ctx 0x30
                  (call_delay_ms ctx 10 (s_write_operation ctx 0x30
                  (call_delay_ms ctx 50 (s_write_operation ctx 0x30
                  (call_set_ctrl_pin_state ctx HD44780_PIN_RS PIN_RESET
                  (call_init_common ctx w)))))));
              w0 = (if interface ctx = INTERFACE_8BIT then s_write_operation ctx 0x38 wr
                    else call_delay_ms ctx 10 (s_write_operation ctx 0x20 wr));
              s1 = (if interface ctx = INTERFACE_8BIT then (HD44780_OK, w0)
                    else s_write_instruction ctx 0x28 w0);
              s2 = s_write_instruction ctx 0x08 (snd s1);
              s3 = s_write_instruction ctx 0x01 (snd s2);
              s4 = s_write_instruction ctx 0x06 (snd s3);
              s5 = s_write_instruction ctx 0x0C (snd s4)
          in hd44780_init ctx w =
               (if fst s1 \<noteq> HD44780_OK then s1
                else if fst s2 \<noteq> HD44780_OK then s2
                else if fst s3 \<noteq> HD44780_OK then s3
                else if fst s4 \<noteq> HD44780_OK then s4
                else if fst s5 \<noteq> HD44780_OK then s5
                else (HD44780_CUSTOM_CHARS_INV, snd s5)) \<and>
             trace (snd (hd44780_init ctx w)) =
               trace w @
               [Init_Common, Set_Ctrl_Pin_State HD44780_PIN_RS PIN_RESET] @
               write_operation_events 0x30 @ [Delay_Ms 50] @
               write_operation_events 0x30 @ [Delay_Ms 10] @
               write_operation_events 0x30 @ [Delay_Ms 10] @
               (if interface ctx = INTERFACE_8BIT then write_operation_events 0x38
                else write_operation_events 0x20 @ [Delay_Ms 10] @
                     framed_events (interface ctx) PIN_RESET 0x28 (fst s1)) @
               (if fst s1 \<noteq> HD44780_OK then []
                else framed_events (interface ctx) PIN_RESET 0x08 (fst s2) @
               (if fst s2 \<noteq> HD44780_OK then []
                else framed_events (interface ctx) PIN_RESET 0x01 (fst s3) @
               (if fst s3 \<noteq> HD44780_OK then []
                else framed_events (interface ctx) PIN_RESET 0x06 (fst s4) @
               (if fst s4 \<noteq> HD44780_OK then []
                else framed_events (interface ctx) PIN_RESET 0x0C (fst s5)))))) \<and>
         Set_Ctrl_Pin_State HD44780_PIN_RS PIN_SET
           \<notin> set (drop (length (trace w)) (trace (snd (hd44780_init ctx w)))) \<and>
         snd (hd44780_init ctx w) = snd (hd44780_init (ctx\<lparr>custom_chars_map_len := 0\<rparr>) w) \<and>
         fst (hd44780_init ctx w) =
           (if fst (hd44780_init (ctx\<lparr>custom_chars_map_len := 0\<rparr>) w) = HD44780_OK
            then HD44780_CUSTOM_CHARS_INV
            else fst (hd44780_init (ctx\<lparr>custom_chars_map_len := 0\<rparr>) w)) \<and>
         ((\<forall>h. fst (cb_wait_for_busy_flag_clear ctx h) = HD44780_OK) \<longrightarrow>
            fst (hd44780_init ctx w) = HD44780_CUSTOM_CHARS_INV \<and>
            trace (snd (hd44780_init ctx w)) =
              trace w @
              [Init_Common, Set_Ctrl_Pin_State HD44780_PIN_RS PIN_RESET] @
              write_operation_events 0x30 @ [Delay_Ms 50] @
              write_operation_events 0x30 @ [Delay_Ms 10] @
              write_operation_events 0x30 @ [Delay_Ms 10] @
              (if interface ctx = INTERFACE_8BIT then write_operation_events 0x38
               else write_operation_events 0x20 @ [Delay_Ms 10] @
                    framed_events (interface ctx) PIN_RESET 0x28 HD44780_OK) @
              framed_events (interface ctx) PIN_RESET 0x08 HD44780_OK @
              framed_events (interface ctx) PIN_RESET 0x01 HD44780_OK @
              framed_events (interface ctx) PIN_RESET 0x06 HD44780_OK @
              framed_events (interface ctx) PIN_RESET 0x0C HD44780_OK \<and>
            Set_Ctrl_Pin_State HD44780_PIN_RS PIN_SET
              \<notin> set (drop (length (trace w)) (trace (snd (hd44780_init ctx w)))))"
proof -
  let ?ctx0 = "ctx\<lparr>custom_chars_map_len := 0\<rparr>"
  have up: "s_upload_custom_chars ctx w' = (HD44780_CUSTOM_CHARS_INV, w')" for w'
    using assms by (rule upload_oversized)
  have split: "hd44780_init ctx w =
      (if fst (hd44780_init ?ctx0 w) = HD44780_OK
       then (HD44780_CUSTOM_CHARS_INV, snd (hd44780_init ?ctx0 w))
       else hd44780_init ?ctx0 w)"
    by (subst init_then_upload) (simp add: up split_beta)
  have world: "snd (hd44780_init ctx w) = snd (hd44780_init ?ctx0 w)"
    and status: "fst (hd44780_init ctx w) =
           (if fst (hd44780_init ?ctx0 w) = HD44780_OK then HD44780_CUSTOM_CHARS_INV
            else fst (hd44780_init ?ctx0 w))"
    by (simp_all add: split)
  have quiet: "Set_Ctrl_Pin_State HD44780_PIN_RS PIN_SET
           \<notin> set (drop (length (trace w)) (trace (snd (hd44780_init ctx w))))"
    using assms by (rule init_oversized_no_rs_set)
  have ready: "(\<forall>h. fst (cb_wait_for_busy_flag_clear ctx h) = HD44780_OK) \<longrightarrow>
            fst (hd44780_init ctx w) = HD44780_CUSTOM_CHARS_INV \<and>
            trace (snd (hd44780_init ctx w)) =
              trace w @
              [Init_Common, Set_Ctrl_Pin_State HD44780_PIN_RS PIN_RESET] @
              write_operation_events 0x30 @ [Delay_Ms 50] @
              write_operation_events 0x30 @ [Delay_Ms 10] @
              write_operation_events 0x30 @ [Delay_Ms 10] @
              (if interface ctx = INTERFACE_8BIT then write_operation_events 0x38
               else write_operation_events 0x20 @ [Delay_Ms 10] @
                    framed_events (interface ctx) PIN_RESET 0x28 HD44780_OK) @
              framed_events (interface ctx) PIN_RESET 0x08 HD44780_OK @
              framed_events (interface ctx) PIN_RESET 0x01 HD44780_OK @
              framed_events (interface ctx) PIN_RESET 0x06 HD44780_OK @
              framed_events (interface ctx) PIN_RESET 0x0C HD44780_OK \<and>
            Set_Ctrl_Pin_State HD44780_PIN_RS PIN_SET
              \<notin> set (drop (length (trace w)) (trace (snd (hd44780_init ctx w))))"
  proof (intro impI)
    assume "\<forall>h. fst (cb_wait_for_busy_flag_clear ctx h) = HD44780_OK"
    then have ready: "\<forall>h. fst (cb_wait_for_busy_flag_clear ?ctx0 h) = HD44780_OK" by simp
    have empty: "custom_chars_map_len ?ctx0 = 0" by simp
    from init_ready_trace [OF ready empty, of w] world status quiet
    show "fst (hd44780_init ctx w) = HD44780_CUSTOM_CHARS_INV \<and>
            trace (snd (hd44780_init ctx w)) =
              trace w @
              [Init_Common, Set_Ctrl_Pin_State HD44780_PIN_RS PIN_RESET] @
              write_operation_events 0x30 @ [Delay_Ms 50] @
              write_operation_events 0x30 @ [Delay_Ms 10] @
              write_operation_events 0x30 @ [Delay_Ms 10] @
              (if interface ctx = INTERFACE_8BIT then write_operation_events 0x38
               else write_operation_events 0x20 @ [Delay_Ms 10] @
                    framed_events (interface ctx) PIN_RESET 0x28 HD44780_OK) @
              framed_events (interface ctx) PIN_RESET 0x08 HD44780_OK @
              framed_events (interface ctx) PIN_RESET 0x01 HD44780_OK @
              framed_events (interface ctx) PIN_RESET 0x06 HD44780_OK @
              framed_events (interface ctx) PIN_RESET 0x0C HD44780_OK \<and>
            Set_Ctrl_Pin_State HD44780_PIN_RS PIN_SET
              \<notin> set (drop (length (trace w)) (trace (snd (hd44780_init ctx w))))"
      by simp
  qed
  from up [of w] init_oversized_run [OF assms, of w] quiet world status ready
  show ?thesis by (intro conjI)
qed

theorem init_oversized_map_uploads_nothing_witness:
  "8 < custom_chars_map_len ((example_ctx INTERFACE_8BIT sim_ready)\<lparr>custom_chars_map_len := 9\<rparr>) \<and>
   (\<forall>h. fst (cb_wait_for_busy_flag_clear
              ((example_ctx INTERFACE_8BIT sim_ready)\<lparr>custom_chars_map_len := 9\<rparr>) h) = HD44780_OK) \<and>
   fst (hd44780_init ((example_ctx INTERFACE_8BIT sim_ready)\<lparr>custom_chars_map_len := 9\<rparr>)
          (sim_world [] 0 [])) = HD44780_CUSTOM_CHARS_INV \<and>
   trace (snd (hd44780_init ((example_ctx INTERFACE_8BIT sim_ready)\<lparr>custom_chars_map_len := 9\<rparr>)
                 (sim_world [] 0 []))) =
     [Init_Common, Set_Ctrl_Pin_State HD44780_PIN_RS PIN_RESET] @
     write_operation_events 0x30 @ [Delay_Ms 50] @
     write_operation_events 0x30 @ [Delay_Ms 10] @
     write_operation_events 0x30 @ [Delay_Ms 10] @
     write_operation_events 0x38 @
     framed_events INTERFACE_8BIT PIN_RESET 0x08 HD44780_OK @
     framed_events INTERFACE_8BIT PIN_RESET 0x01 HD44780_OK @
     framed_events INTERFACE_8BIT PIN_RESET 0x06 HD44780_OK @
     framed_events INTERFACE_8BIT PIN_RESET 0x0C HD44780_OK \<and>
   8 < custom_chars_map_len ((example_ctx INTERFACE_4BIT sim_wait)\<lparr>custom_chars_map_len := 9\<rparr>) \<and>
   fst (hd44780_init ((example_ctx INTERFACE_4BIT sim_wait)\<lparr>custom_chars_map_len := 9\<rparr>)
          (sim_world [] 0 [HD44780_OK, HD44780_OK, HD44780_TIMEOUT])) = HD44780_TIMEOUT \<and>
   trace (snd (hd44780_init ((example_ctx INTERFACE_4BIT sim_wait)\<lparr>custom_chars_map_len := 9\<rparr>)
                 (sim_world [] 0 [HD44780_OK, HD44780_OK, HD44780_TIMEOUT]))) =
     [Init_Common, Set_Ctrl_Pin_State HD44780_PIN_RS PIN_RESET] @
     write_operation_events 0x30 @ [Delay_Ms 50] @
     write_operation_events 0x30 @ [Delay_Ms 10] @
     write_operation_events 0x30 @ [Delay_Ms 10] @
     write_operation_events 0x20 @ [Delay_Ms 10] @
     framed_events INTERFACE_4BIT PIN_RESET 0x28 HD44780_OK @
     framed_events INTERFACE_4BIT PIN_RESET 0x08 HD44780_OK @
     [Wait_For_Busy_Flag_Clear HD44780_TIMEOUT]"
proof -
  let ?ctx = "(example_ctx INTERFACE_8BIT sim_ready)\<lparr>custom_chars_map_len := 9\<rparr>"
  let ?ctx4 = "(example_ctx INTERFACE_4BIT sim_wait)\<lparr>custom_chars_map_len := 9\<rparr>"
  let ?w4 = "sim_world [] 0 [HD44780_OK, HD44780_OK, HD44780_TIMEOUT]"
  have big: "8 < custom_chars_map_len ?ctx"
    by (simp add: example_ctx_def)
  have ready: "\<forall>h. fst (cb_wait_for_busy_flag_clear ?ctx h) = HD44780_OK"
    by (simp add: example_ctx_def sim_ready_def)
  have iface: "interface ?ctx = INTERFACE_8BIT"
    by (simp add: example_ctx_def)
  have big4: "8 < custom_chars_map_len ?ctx4"
    by (simp add: example_ctx_def)
  note init_oversized_map_uploads_nothing [OF big, of "sim_world [] 0 []"]
  note this [THEN conjunct2, THEN conjunct2, THEN conjunct2, THEN conjunct2, THEN conjunct2,
      THEN mp, OF ready]
  then have first: "fst (hd44780_init ?ctx (sim_world [] 0 [])) = HD44780_CUSTOM_CHARS_INV \<and>
   trace (snd (hd44780_init ?ctx (sim_world [] 0 []))) =
     [Init_Common, Set_Ctrl_Pin_State HD44780_PIN_RS PIN_RESET] @
     write_operation_events 0x30 @ [Delay_Ms 50] @
     write_operation_events 0x30 @ [Delay_Ms 10] @
     write_operation_events 0x30 @ [Delay_Ms 10] @
     write_operation_events 0x38 @
     framed_events INTERFACE_8BIT PIN_RESET 0x08 HD44780_OK @
     framed_events INTERFACE_8BIT PIN_RESET 0x01 HD44780_OK @
     framed_events INTERFACE_8BIT PIN_RESET 0x06 HD44780_OK @
     framed_events INTERFACE_8BIT PIN_RESET 0x0C HD44780_OK"
    by (simp add: iface sim_world_def)
  note init_oversized_map_uploads_nothing [OF big4, of ?w4]
  note this [THEN conjunct2, THEN conjunct1, unfolded Let_def]
  then have second: "fst (hd44780_init ?ctx4 ?w4) = HD44780_TIMEOUT \<and>
   trace (snd (hd44780_init ?ctx4 ?w4)) =
     [Init_Common, Set_Ctrl_Pin_State HD44780_PIN_RS PIN_RESET] @
     write_operation_events 0x30 @ [Delay_Ms 50] @
     write_operation_events 0x30 @ [Delay_Ms 10] @
     write_operation_events 0x30 @ [Delay_Ms 10] @
     write_operation_events 0x20 @ [Delay_Ms 10] @
     framed_events INTERFACE_4BIT PIN_RESET 0x28 HD44780_OK @
     framed_events INTERFACE_4BIT PIN_RESET 0x08 HD44780_OK @
     [Wait_For_Busy_Flag_Clear HD44780_TIMEOUT]"
    by (simp add: s_write_instruction_def s_write_byte_def s_write_operation_def
        s_config_bus_as_output_def call_defs sim_defs split_beta Let_def
        framed_events_def write_byte_events_def write_operation_events_def)
  from big ready first big4 second show ?thesis
    by (intro conjI) simp_all
qed

text \<open>
  Nine glyphs and a busy-wait that times out at the first framed step: the status is
  TIMEOUT, not CUSTOM_CHARS_INV.
\<close>

theorem init_oversized_map_timeout_counterexample:
  "8 < custom_chars_map_len ((example_ctx INTERFACE_8BIT sim_wait)\<lparr>custom_chars_map_len := 9\<rparr>) \<and>
   fst (hd44780_init ((example_ctx INTERFACE_8BIT sim_wait)\<lparr>custom_chars_map_len := 9\<rparr>)
          (sim_world [] 0 [HD44780_TIMEOUT])) = HD44780_TIMEOUT \<and>
   fst (hd44780_init ((example_ctx INTERFACE_8BIT sim_wait)\<lparr>custom_chars_map_len := 9\<rparr>)
          (sim_world [] 0 [HD44780_TIMEOUT])) \<noteq> HD44780_CUSTOM_CHARS_INV"
  by (simp add: hd44780_init_def init_loop_unroll hd44780_display_off_def
      s_write_instruction_def s_write_operation_def s_config_bus_as_output_def
      call_defs sim_defs split_beta Let_def)

section \<open>Text rendering\<close>

lemma find_loop_absent:
  "(\<forall>j. i \<le> j \<and> j < custom_chars_map_len ctx \<longrightarrow> utf_8_code (custom_chars_map ctx j) \<noteq> code) \<Longrightarrow>
   s_find_character_by_code_loop ctx code index i = (HD44780_CHAR_NOT_FOUND, index)"
proof (induction ctx code index i rule: s_find_character_by_code_loop.induct)
  case (1 ctx code index i)
  show ?case
  proof (cases "i < custom_chars_map_len ctx")
    case True
    with "1.prems" have ne: "code \<noteq> utf_8_code (custom_chars_map ctx i)" by auto
    have step: "i \<le> i + 1" using True by unat_arith
    have "\<forall>j. i + 1 \<le> j \<and> j < custom_chars_map_len ctx \<longrightarrow>
                 utf_8_code (custom_chars_map ctx j) \<noteq> code"
    proof (intro allI impI)
      fix j assume j: "i + 1 \<le> j \<and> j < custom_chars_map_len ctx"
      with step have "i \<le> j" by (simp add: order.trans [of i "i + 1" j])
      with j "1.prems" show "utf_8_code (custom_chars_map ctx j) \<noteq> code" by blast
    qed
    from "1.IH" [OF True ne this] True ne show ?thesis
      by (subst s_find_character_by_code_loop.simps) simp
  next
    case False
    then show ?thesis by (subst s_find_character_by_code_loop.simps) simp
  qed
qed


lemma find_absent:
  "(\<forall>j < custom_chars_map_len ctx. utf_8_code (custom_chars_map ctx j) \<noteq> code) \<Longrightarrow>
   s_find_character_by_code ctx code index = (HD44780_CHAR_NOT_FOUND, index)"
  by (simp add: s_find_character_by_code_def find_loop_absent)



lemma glyph_not_found:
  "fst (s_find_character_by_code ctx codepoint 0) \<noteq> HD44780_OK \<Longrightarrow>
   hd44780_write_text_glyph ctx codepoint w = (fst (s_find_character_by_code ctx codepoint 0), w)"
  by (simp add: hd44780_write_text_glyph_def split_beta)



lemma loop_failed:
  "ret \<noteq> HD44780_OK \<Longrightarrow> hd44780_write_text_loop ctx ret text w = (Some ret, w)"
  by (cases "text") (auto simp: hd44780_write_text_loop.simps)

lemma loop_end:
  "hd44780_write_text_loop ctx ret (0 # text) w = (Some ret, w)"
  by (simp add: hd44780_write_text_loop.simps)

lemma loop_nil:
  "fst (hd44780_write_text_loop ctx ret [] w) \<noteq> Some HD44780_OK"
  by (simp add: hd44780_write_text_loop.simps)

lemma loop_ascii:
  "c \<noteq> 0 \<Longrightarrow> c \<le> 0x7F \<Longrightarrow>
   hd44780_write_text_loop ctx HD44780_OK (c # text) w =
     hd44780_write_text_loop ctx (fst (s_write_data ctx c w)) text (snd (s_write_data ctx c w))"
  by (simp add: hd44780_write_text_loop.simps split_beta)

lemma loop_ascii_timeout:
  assumes "c \<noteq> 0" and "c \<le> 0x7F"
    and "fst (cb_wait_for_busy_flag_clear ctx (hw w)) = HD44780_TIMEOUT"
  shows "fst (hd44780_write_text_loop ctx HD44780_OK (c # text) w) = Some HD44780_TIMEOUT"
    and "trace (snd (hd44780_write_text_loop ctx HD44780_OK (c # text) w)) =
           trace w @ [Wait_For_Busy_Flag_Clear HD44780_TIMEOUT]"
  using assms(3)
  by (simp_all add: loop_ascii [OF assms(1,2)] loop_failed fst_s_write_data
      trace_s_write_data framed_events_def)

lemma loop_multibyte:
  assumes "0x7F < c" and "length bs = utf8_tail_length c"
  shows "hd44780_write_text_loop ctx HD44780_OK (c # bs @ text) w =
           hd44780_write_text_loop ctx
             (fst (hd44780_write_text_glyph ctx (utf8_codepoint c bs) w)) text
             (snd (hd44780_write_text_glyph ctx (utf8_codepoint c bs) w))"
proof -
  have nz: "c \<noteq> 0" and na: "\<not> c \<le> 0x7F" using assms(1) by auto
  consider (two) "c \<le> 0xDF" | (three) "\<not> c \<le> 0xDF" "c \<le> 0xEF" | (four) "\<not> c \<le> 0xDF" "\<not> c \<le> 0xEF"
    by blast
  then show ?thesis
  proof cases
    case two
    with assms(2) obtain c1 where "bs = [c1]"
      by (cases bs) (auto simp: utf8_tail_length_def)
    with two nz na show ?thesis
      by (simp add: hd44780_write_text_loop.simps split_beta Let_def)
  next
    case three
    with assms(2) obtain c1 c2 where "bs = [c1, c2]"
      by (cases bs; cases "tl bs") (auto simp: utf8_tail_length_def)
    with three nz na show ?thesis
      by (simp add: hd44780_write_text_loop.simps split_beta Let_def)
  next
    case four
    with assms(2) obtain c1 c2 c3 where "bs = [c1, c2, c3]"
      by (cases bs; cases "tl bs"; cases "tl (tl bs)") (auto simp: utf8_tail_length_def)
    with four nz na show ?thesis
      by (simp add: hd44780_write_text_loop.simps split_beta Let_def)
  qed
qed

lemma loop_truncated:
  assumes "0x7F < c" and "length xs \<le> utf8_tail_length c"
  shows "fst (hd44780_write_text_loop ctx HD44780_OK (c # xs) w) \<noteq> Some HD44780_OK"
proof (cases "length xs = utf8_tail_length c")
  case True
  from loop_multibyte [OF assms(1) True, of ctx "[]" w] loop_nil show ?thesis by simp
next
  case False
  with assms(2) have short: "length xs < utf8_tail_length c" by simp
  have nz: "c \<noteq> 0" and na: "\<not> c \<le> 0x7F" using assms(1) by auto
  from short show ?thesis
    by (cases xs; cases "tl xs"; cases "tl (tl xs)")
       (auto simp: utf8_tail_length_def hd44780_write_text_loop.simps nz na
          split: if_splits)
qed

lemma loop_prefix:
  "0 \<notin> set pre \<Longrightarrow>
   hd44780_write_text_loop ctx ret (pre @ [0]) w = (Some HD44780_OK, w') \<Longrightarrow>
   hd44780_write_text_loop ctx ret (pre @ rest) w = hd44780_write_text_loop ctx HD44780_OK rest w'"
proof (induction pre arbitrary: ret w rule: length_induct)
  case (1 pre)
  have ok: "ret = HD44780_OK"
  proof (rule ccontr)
    assume bad: "ret \<noteq> HD44780_OK"
    from loop_failed [OF bad, of ctx "pre @ [0]" w] "1.prems"(2) bad show False by simp
  qed
  show ?case
  proof (cases pre)
    case Nil
    with "1.prems"(2) ok show ?thesis by (simp add: loop_end)
  next
    case (Cons c xs)
    with "1.prems"(1) have nz: "c \<noteq> 0" and xs0: "0 \<notin> set xs" by auto
    show ?thesis
    proof (cases "c \<le> 0x7F")
      case True
      from "1.prems"(2) have
        "hd44780_write_text_loop ctx (fst (s_write_data ctx c w)) (xs @ [0])
           (snd (s_write_data ctx c w)) = (Some HD44780_OK, w')"
        by (simp add: Cons ok loop_ascii [OF nz True])
      with "1.IH" xs0 have
        "hd44780_write_text_loop ctx (fst (s_write_data ctx c w)) (xs @ rest)
           (snd (s_write_data ctx c w)) = hd44780_write_text_loop ctx HD44780_OK rest w'"
        by (simp add: Cons)
      then show ?thesis by (simp add: Cons ok loop_ascii [OF nz True])
    next
      case False
      then have lead: "0x7F < c" by simp
      show ?thesis
      proof (cases "length xs < utf8_tail_length c")
        case True
        then have "length (xs @ [0]) \<le> utf8_tail_length c" by simp
        from loop_truncated [OF lead this, of ctx w] "1.prems"(2) show ?thesis
          by (simp add: Cons ok)
      next
        case False
        define bs where "bs = take (utf8_tail_length c) xs"
        define ys where "ys = drop (utf8_tail_length c) xs"
        have xs: "xs = bs @ ys" by (simp add: bs_def ys_def)
        have len: "length bs = utf8_tail_length c" using False by (simp add: bs_def)
        have ys0: "0 \<notin> set ys" using xs0 by (auto simp: ys_def dest: in_set_dropD)
        have shorter: "length ys < length pre" by (simp add: Cons xs)
        let ?g = "hd44780_write_text_glyph ctx (utf8_codepoint c bs) w"
        from "1.prems"(2) have
          "hd44780_write_text_loop ctx (fst ?g) (ys @ [0]) (snd ?g) = (Some HD44780_OK, w')"
          using loop_multibyte [OF lead len, of ctx "ys @ [0]" w] by (simp add: Cons ok xs)
        with "1.IH" shorter ys0 have
          "hd44780_write_text_loop ctx (fst ?g) (ys @ rest) (snd ?g) =
             hd44780_write_text_loop ctx HD44780_OK rest w'"
          by blast
        then show ?thesis
          using loop_multibyte [OF lead len, of ctx "ys @ rest" w] by (simp add: Cons ok xs)
      qed
    qed
  qed
qed

lemmas run_defs =
  hd44780_write_text_def hd44780_write_text_loop.simps hd44780_write_text_glyph_def
  s_find_character_by_code_def s_find_character_by_code_loop.simps
  hd44780_disp_char_def s_set_ddram_addr_def s_write_data_def s_write_instruction_def
  s_write_byte_def s_write_operation_def s_config_bus_as_output_def
  s_read_address_def s_read_byte_def s_read_operation_def s_config_bus_as_input_def
  call_defs sim_defs example_mappings_def REG_DDRAM_ADDR_SET_def split_beta Let_def



text \<open>
  Claim C3, as the code has it. When writing the characters before it returns OK, a
  multi-byte character whose code point is absent from the glyph map makes
  \<open>hd44780_write_text\<close> return CHAR_NOT_FOUND, whatever follows it in the string. The
  world is then the one the preceding characters left: their framed writes are in the
  trace, and there is no event for the unmapped character.
\<close>

theorem write_text_unmapped_glyph_aborts:
  assumes "0 \<notin> set pre"
    and "hd44780_write_text ctx (pre @ [0]) w0 = (Some HD44780_OK, w)"
    and "0x7F < c" and "length bs = utf8_tail_length c"
    and "\<forall>j < custom_chars_map_len ctx.
           utf_8_code (custom_chars_map ctx j) \<noteq> utf8_codepoint c bs"
  shows "hd44780_write_text ctx (pre @ c # bs @ rest) w0 = (Some HD44780_CHAR_NOT_FOUND, w)"
proof -
  let ?g = "hd44780_write_text_glyph ctx (utf8_codepoint c bs) w"
  have absent: "s_find_character_by_code ctx (utf8_codepoint c bs) 0 =
                  (HD44780_CHAR_NOT_FOUND, 0)"
    using assms(5) by (rule find_absent)
  then have g: "?g = (HD44780_CHAR_NOT_FOUND, w)"
    using glyph_not_found [of ctx "utf8_codepoint c bs" w] by simp
  have "hd44780_write_text ctx (pre @ c # bs @ rest) w0 =
          hd44780_write_text_loop ctx HD44780_OK (c # bs @ rest) w"
    using loop_prefix [OF assms(1), of ctx HD44780_OK w0 w "c # bs @ rest"] assms(2)
    by (simp add: hd44780_write_text_def)
  also have "\<dots> = hd44780_write_text_loop ctx (fst ?g) rest (snd ?g)"
    by (rule loop_multibyte [OF assms(3,4)])
  also have "\<dots> = (Some HD44780_CHAR_NOT_FOUND, w)"
    by (simp add: g loop_failed)
  finally show ?thesis .
qed

theorem write_text_unmapped_glyph_aborts_witness:
  "0 \<notin> set [0x48, 0x69 :: u8] \<and>
   hd44780_write_text (example_ctx INTERFACE_8BIT sim_ready) ([0x48, 0x69] @ [0])
     (sim_world [] 0 []) =
     (Some HD44780_OK,
      \<lparr>trace = framed_events INTERFACE_8BIT PIN_SET 0x48 HD44780_OK @
                framed_events INTERFACE_8BIT PIN_SET 0x69 HD44780_OK,
       hw = \<lparr>sim_reads = [], sim_idle = 0, sim_waits = []\<rparr>\<rparr>) \<and>
   (0x7F :: u8) < 0xC3 \<and> length [0xA9 :: u8] = utf8_tail_length 0xC3 \<and>
   (\<forall>j. utf_8_code (custom_chars_map (example_ctx INTERFACE_8BIT sim_ready) j)
          \<noteq> utf8_codepoint 0xC3 [0xA9]) \<and>
   hd44780_write_text (example_ctx INTERFACE_8BIT sim_ready)
     ([0x48, 0x69] @ 0xC3 # [0xA9] @ [0x21, 0]) (sim_world [] 0 []) =
     (Some HD44780_CHAR_NOT_FOUND,
      \<lparr>trace = framed_events INTERFACE_8BIT PIN_SET 0x48 HD44780_OK @
                framed_events INTERFACE_8BIT PIN_SET 0x69 HD44780_OK,
       hw = \<lparr>sim_reads = [], sim_idle = 0, sim_waits = []\<rparr>\<rparr>)"
proof -
  let ?ctx = "example_ctx INTERFACE_8BIT sim_ready"
  let ?w = "\<lparr>trace = framed_events INTERFACE_8BIT PIN_SET 0x48 HD44780_OK @
                framed_events INTERFACE_8BIT PIN_SET 0x69 HD44780_OK,
       hw = \<lparr>sim_reads = [], sim_idle = 0, sim_waits = []\<rparr>\<rparr>"
  have pre: "0 \<notin> set [0x48, 0x69 :: u8]" by simp
  have run: "hd44780_write_text ?ctx ([0x48, 0x69] @ [0]) (sim_world [] 0 []) = (Some HD44780_OK, ?w)"
    by (simp add: run_defs framed_events_def write_byte_events_def write_operation_events_def)
  have lead: "(0x7F :: u8) < 0xC3" by simp
  have len: "length [0xA9 :: u8] = utf8_tail_length 0xC3" by (simp add: utf8_tail_length_def)
  have absent: "\<forall>j. utf_8_code (custom_chars_map ?ctx j) \<noteq> utf8_codepoint 0xC3 [0xA9]"
    by (simp add: example_ctx_def example_mappings_def)
  then have absent': "\<forall>j < custom_chars_map_len ?ctx.
      utf_8_code (custom_chars_map ?ctx j) \<noteq> utf8_codepoint 0xC3 [0xA9]"
    by blast
  from write_text_unmapped_glyph_aborts [OF pre run lead len absent', of "[0x21, 0]"]
    pre run lead len absent
  show ?thesis by blast
qed

text \<open>
  The string "A" followed by an unmapped two-byte character, on a display whose first
  busy-wait times out: the status is TIMEOUT, not CHAR_NOT_FOUND.
\<close>

theorem write_text_prefix_timeout_counterexample:
  "utf8_codepoint 0xC3 [0xA9] = 0xE9 \<and>
   s_find_character_by_code (example_ctx INTERFACE_8BIT sim_wait) 0xE9 0 =
     (HD44780_CHAR_NOT_FOUND, 0) \<and>
   hd44780_write_text (example_ctx INTERFACE_8BIT sim_wait) [0x41, 0xC3, 0xA9, 0]
     (sim_world [] 0 [HD44780_TIMEOUT]) =
   (Some HD44780_TIMEOUT,
    \<lparr>trace = [Wait_For_Busy_Flag_Clear HD44780_TIMEOUT],
     hw = \<lparr>sim_reads = [], sim_idle = 0, sim_waits = []\<rparr>\<rparr>)"
  by (simp add: run_defs)

text \<open>
  Claim C2 at a concrete run. The statuses of \<open>hd44780_disp_char\<close> and
  \<open>s_set_ddram_addr\<close> in the glyph branch are dropped. Writing a mapped two-byte
  character followed by "A" while the busy-wait of the glyph's data write times out
  neither stops the loop nor returns TIMEOUT: the address is restored, "A" is written,
  and the status is OK. The ASCII branch does propagate the status of its framed write
  (lemma \<open>loop_ascii_timeout\<close>).
\<close>

theorem write_text_ignores_glyph_timeout:
  "hd44780_write_text (example_ctx INTERFACE_8BIT sim_wait) [0xC3, 0xA8, 0x41, 0]
     (sim_world [0x05] 0 [HD44780_TIMEOUT]) =
   (Some HD44780_OK,
    \<lparr>trace =
       [Set_Ctrl_Pin_State HD44780_PIN_RS PIN_RESET,
        Set_Bus_Direction GPIO_DIR_IN, Set_Ctrl_Pin_State HD44780_PIN_RW PIN_SET,
        Set_Ctrl_Pin_State HD44780_PIN_E PIN_SET, Read_Bus 0x05,
        Set_Ctrl_Pin_State HD44780_PIN_E PIN_RESET,
        Wait_For_Busy_Flag_Clear HD44780_TIMEOUT,
        Wait_For_Busy_Flag_Clear HD44780_OK,
        Set_Ctrl_Pin_State HD44780_PIN_RS PIN_RESET,
        Set_Ctrl_Pin_State HD44780_PIN_RW PIN_RESET, Set_Bus_Direction GPIO_DIR_OUT,
        Set_Ctrl_Pin_State HD44780_PIN_E PIN_SET, Write_Bus 0x86,
        Set_Ctrl_Pin_State HD44780_PIN_E PIN_RESET,
        Wait_For_Busy_Flag_Clear HD44780_OK,
        Set_Ctrl_Pin_State HD44780_PIN_RS PIN_SET,
        Set_Ctrl_Pin_State HD44780_PIN_RW PIN_RESET, Set_Bus_Direction GPIO_DIR_OUT,
        Set_Ctrl_Pin_State HD44780_PIN_E PIN_SET, Write_Bus 0x41,
        Set_Ctrl_Pin_State HD44780_PIN_E PIN_RESET],
     hw = \<lparr>sim_reads = [], sim_idle = 0, sim_waits = []\<rparr>\<rparr>)"
  by (simp add: run_defs)

end
